theory Spec2Isabelle
  imports Main
begin

section \<open>JavaScript values\<close>

text \<open>
  The SDK manipulates plain JSON-like data: request parameters supplied by the caller,
  request bodies and parsed response bodies. Objects are association lists from property
  names to values; a property lookup uses the first binding of a name. Numbers are the
  integers (fractions, NaN and the infinities are left out of the model), so the
  \<open>.int()\<close> refinement of a number schema always holds of a modelled number. A caller
  can also hand in a \<open>BigInt\<close> wherever a schema asks for \<open>unknown\<close>; it is the value that
  \<open>JSON.stringify\<close> refuses (cyclic values, which it refuses too, are not modelled).
\<close>

datatype jsval =
    JUndefined
  | JNull
  | JBool bool
  | JNum int
  | JBigInt int
  | JStr string
  | JArr "jsval list"
  | JObj "(string \<times> jsval) list"

text \<open>\<open>k in o\<close> for a plain object.\<close>

definition has_key :: "(string \<times> jsval) list \<Rightarrow> string \<Rightarrow> bool" where
  "has_key kvs k = (k \<in> set (map fst kvs))"

text \<open>\<open>o[k]\<close>: the value of a property, \<open>undefined\<close> when it is absent.\<close>

definition get_key :: "(string \<times> jsval) list \<Rightarrow> string \<Rightarrow> jsval" where
  "get_key kvs k = (case map_of kvs k of Some v \<Rightarrow> v | None \<Rightarrow> JUndefined)"

fun get_prop :: "jsval \<Rightarrow> string \<Rightarrow> jsval" where
  "get_prop (JObj kvs) k = get_key kvs k"
| "get_prop _ k = JUndefined"

text \<open>Truthiness, as tested by \<open>!x\<close> and \<open>if (x)\<close>.\<close>

fun truthy :: "jsval \<Rightarrow> bool" where
  "truthy JUndefined = False"
| "truthy JNull = False"
| "truthy (JBool b) = b"
| "truthy (JNum n) = (n \<noteq> 0)"
| "truthy (JBigInt n) = (n \<noteq> 0)"
| "truthy (JStr s) = (s \<noteq> [])"
| "truthy (JArr xs) = True"
| "truthy (JObj kvs) = True"

subsection \<open>Conversion to string\<close>

definition digit :: "nat \<Rightarrow> char" where
  "digit d = ''0123456789'' ! d"

fun show_nat :: "nat \<Rightarrow> string" where
  "show_nat n = (if n < 10 then [digit n] else show_nat (n div 10) @ [digit (n mod 10)])"

declare show_nat.simps [simp del]

definition show_int :: "int \<Rightarrow> string" where
  "show_int i = (if i < 0 then CHR ''-'' # show_nat (nat (- i)) else show_nat (nat i))"

fun join_comma :: "string list \<Rightarrow> string" where
  "join_comma [] = []"
| "join_comma [s] = s"
| "join_comma (s # t # ss) = s @ '','' @ join_comma (t # ss)"

text \<open>
  \<open>String(v)\<close> and the conversion done by a template literal, on plain data: a string is
  itself, an integer is its decimal digits, an array is its elements joined by commas
  (\<open>null\<close> and \<open>undefined\<close> elements give the empty string), a plain object is
  \<open>[object Object]\<close> (objects that carry a \<open>toString\<close> or \<open>valueOf\<close> key of their own are
  outside the model).
\<close>

fun String_js :: "jsval \<Rightarrow> string" where
  "String_js JUndefined = ''undefined''"
| "String_js JNull = ''null''"
| "String_js (JBool b) = (if b then ''true'' else ''false'')"
| "String_js (JNum n) = show_int n"
| "String_js (JBigInt n) = show_int n"
| "String_js (JStr s) = s"
| "String_js (JArr xs) =
     join_comma (map (\<lambda>x. if x = JUndefined \<or> x = JNull then [] else String_js x) xs)"
| "String_js (JObj kvs) = ''[object Object]''"

section \<open>Errors (errors.ts)\<close>

text \<open>
  Everything the code can throw is a value of \<open>error\<close>. \<open>APIError\<close> is an instance of
  the class \<open>NotteAPIError\<close> with its four fields: message, statusCode, errorBody, path.
  \<open>DOMException\<close> carries its name; the platform rejects an aborted fetch with the name
  \<open>AbortError\<close>.
\<close>

datatype error =
    APIError string nat jsval string
  | AuthenticationError string
  | InvalidRequestError string
  | ZodError
  | Error string
  | TypeError string
  | SyntaxError string
  | DOMException string string

fun is_object :: "jsval \<Rightarrow> bool" where
  "is_object (JArr xs) = True"
| "is_object (JObj kvs) = True"
| "is_object _ = False"

text \<open>
  \<open>"k" in v\<close> for a non-null object \<open>v\<close> and one of the names the code tests (\<open>detail\<close>,
  \<open>message\<close>, \<open>items\<close>): no built-in prototype defines them, so an object has the name
  when it has the key itself, and an array does not have it.
\<close>

fun in_js :: "string \<Rightarrow> jsval \<Rightarrow> bool" where
  "in_js k (JObj kvs) = has_key kvs k"
| "in_js k _ = False"

text \<open>The message computed by the constructor of \<open>NotteAPIError\<close>, before the path is appended.\<close>

definition api_message :: "nat \<Rightarrow> jsval \<Rightarrow> string" where
  "api_message statusCode errorBody =
     (if is_object errorBody \<and> in_js ''detail'' errorBody
        then String_js (get_prop errorBody ''detail'')
      else if is_object errorBody \<and> in_js ''message'' errorBody
        then String_js (get_prop errorBody ''message'')
      else (case errorBody of
              JStr s \<Rightarrow> if length s > 0 then s
                        else ''API request failed with status '' @ show_nat statusCode
            | _ \<Rightarrow> ''API request failed with status '' @ show_nat statusCode))"

definition NotteAPIError :: "nat \<Rightarrow> jsval \<Rightarrow> string \<Rightarrow> error" where
  "NotteAPIError statusCode errorBody path =
     APIError (api_message statusCode errorBody @ '' ('' @ path @ '')'') statusCode errorBody path"

section \<open>The base client (base-client.ts)\<close>

record BaseClient =
  apiKey :: string
  serverUrl :: string
  timeoutMs :: int
  baseEndpointPath :: "string option"

record BaseClientOptions =
  opt_apiKey :: "string option"
  opt_serverUrl :: "string option"
  opt_timeoutMs :: "int option"

text \<open>The two variables read from \<open>process.env\<close>.\<close>

record process_env =
  NOTTE_API_KEY :: "string option"
  NOTTE_API_URL :: "string option"

definition DEFAULT_SERVER_URL :: string where
  "DEFAULT_SERVER_URL = ''https://api.notte.cc''"

definition DEFAULT_TIMEOUT_MS :: int where
  "DEFAULT_TIMEOUT_MS = 60000"

text \<open>\<open>a ?? b\<close>\<close>

definition nullish_or :: "'a option \<Rightarrow> 'a option \<Rightarrow> 'a option" where
  "nullish_or a b = (case a of Some x \<Rightarrow> Some x | None \<Rightarrow> b)"

text \<open>The constructor: a missing or empty API key is an \<open>AuthenticationError\<close>.\<close>

definition new_BaseClient ::
  "string option \<Rightarrow> BaseClientOptions \<Rightarrow> process_env \<Rightarrow> error + BaseClient" where
  "new_BaseClient prefix opts env =
     (case nullish_or (opt_apiKey opts) (NOTTE_API_KEY env) of
        None \<Rightarrow> Inl (AuthenticationError ''NOTTE_API_KEY needs to be provided'')
      | Some token \<Rightarrow>
          if token = [] then Inl (AuthenticationError ''NOTTE_API_KEY needs to be provided'')
          else Inr \<lparr>apiKey = token,
                    serverUrl = (case nullish_or (opt_serverUrl opts) (NOTTE_API_URL env) of
                                   Some u \<Rightarrow> u | None \<Rightarrow> DEFAULT_SERVER_URL),
                    timeoutMs = (case opt_timeoutMs opts of
                                   Some ms \<Rightarrow> ms | None \<Rightarrow> DEFAULT_TIMEOUT_MS),
                    baseEndpointPath = prefix\<rparr>)"

definition is_slash :: "char \<Rightarrow> bool" where
  "is_slash c = (c = CHR ''/'')"

text \<open>\<open>s.replace(/\/+$/, "")\<close>\<close>

definition strip_trailing :: "string \<Rightarrow> string" where
  "strip_trailing s = rev (dropWhile is_slash (rev s))"

text \<open>\<open>s.replace(/^\/+/, "")\<close>\<close>

definition strip_leading :: "string \<Rightarrow> string" where
  "strip_leading s = dropWhile is_slash s"

text \<open>\<open>s.replace(/^\/+|\/+$/g, "")\<close>\<close>

definition strip_both :: "string \<Rightarrow> string" where
  "strip_both s = strip_trailing (strip_leading s)"

definition buildUrl :: "BaseClient \<Rightarrow> string \<Rightarrow> string" where
  "buildUrl c endpointPath =
     (let base = strip_trailing (serverUrl c);
          base = (case baseEndpointPath c of
                    None \<Rightarrow> base
                  | Some p \<Rightarrow> if p \<noteq> [] then base @ ''/'' @ strip_both p else base);
          ep = strip_leading endpointPath
      in if ep \<noteq> [] then base @ ''/'' @ ep else base)"

section \<open>The schema layer (zod, as the type declarations use it)\<close>

text \<open>
  The schemas of \<open>types/*.ts\<close> are built from the combinators of the validation library.
  A schema is a term of \<open>schema\<close>; \<open>parse\<close> gives the library's documented result on
  plain data: the parsed value, or \<open>ZodError\<close>. An object schema has one of three
  policies for keys outside its shape: \<open>Strip\<close> (the default) drops them, \<open>Strict\<close>
  rejects the object, \<open>Passthrough\<close> keeps them. A discriminated union is given by its
  discriminator and the table from each option's literal tag to the option.
\<close>

datatype unknownKeys = Strip | Strict | Passthrough

datatype numcheck = IsInt | IsPositive

datatype schema =
    ZString
  | ZBoolean
  | ZNumber "numcheck list"
  | ZUnknown
  | ZLiteral string
  | ZEnum "string list"
  | ZArray schema
  | ZRecord schema
  | ZObject "(string \<times> schema) list" unknownKeys
  | ZUnion "schema list"
  | ZDiscriminatedUnion string "(string \<times> schema) list"
  | ZNullable schema
  | ZOptional schema

fun numcheck_ok :: "int \<Rightarrow> numcheck \<Rightarrow> bool" where
  "numcheck_ok n IsInt = True"
| "numcheck_ok n IsPositive = (n > 0)"

text \<open>All results, or the first error: \<open>xs.map(f)\<close> where \<open>f\<close> may throw.\<close>

fun sequence :: "(error + 'a) list \<Rightarrow> error + 'a list" where
  "sequence [] = Inr []"
| "sequence (Inl e # rs) = Inl e"
| "sequence (Inr x # rs) = (case sequence rs of Inl e \<Rightarrow> Inl e | Inr xs \<Rightarrow> Inr (x # xs))"

text \<open>The first option of a union that accepts the value.\<close>

fun first_ok :: "(error + 'a) list \<Rightarrow> error + 'a" where
  "first_ok [] = Inl ZodError"
| "first_ok (Inr x # rs) = Inr x"
| "first_ok (Inl e # rs) = first_ok rs"

definition tag_field :: "string \<Rightarrow> (error + jsval) \<Rightarrow> error + (string \<times> jsval)" where
  "tag_field k r = (case r of Inl e \<Rightarrow> Inl e | Inr v \<Rightarrow> Inr (k, v))"

text \<open>\<open>for (const key in data)\<close>: each key of the object, once.\<close>

definition own_keys :: "(string \<times> jsval) list \<Rightarrow> string list" where
  "own_keys kvs = remdups (map fst kvs)"

text \<open>
  The library's \<open>mergeObjectSync\<close> builds the parsed object from pairs of a key and its
  parsed value, each with the flag \<open>alwaysSet\<close>: a pair is written to the result unless
  its key is \<open>__proto__\<close>, or its value is \<open>undefined\<close> and the flag is not set.
\<close>

definition mergeObjectSync :: "(string \<times> jsval \<times> bool) list \<Rightarrow> (string \<times> jsval) list" where
  "mergeObjectSync pairs =
     map (\<lambda>p. (fst p, fst (snd p)))
       (filter (\<lambda>p. fst p \<noteq> ''__proto__'' \<and> (fst (snd p) \<noteq> JUndefined \<or> snd (snd p))) pairs)"

text \<open>
  The parsed object: one pair for each key of the shape, always set when the input has the
  key; under \<open>Passthrough\<close> one more pair, never flagged, for each other key of the input
  with the input's value. Under \<open>Strict\<close> any other key of the input is an error.
\<close>

definition finish_object ::
  "unknownKeys \<Rightarrow> string list \<Rightarrow> (string \<times> jsval) list \<Rightarrow> (string \<times> jsval) list \<Rightarrow> error + jsval" where
  "finish_object uk shapeKeys kvs parsed =
     (let extraKeys = filter (\<lambda>k. k \<notin> set shapeKeys) (own_keys kvs);
          known = map (\<lambda>kr. (fst kr, snd kr, has_key kvs (fst kr))) parsed;
          extra = map (\<lambda>k. (k, get_key kvs k, False)) extraKeys
      in case uk of
           Strict \<Rightarrow> if extraKeys \<noteq> [] then Inl ZodError else Inr (JObj (mergeObjectSync known))
         | Strip \<Rightarrow> Inr (JObj (mergeObjectSync known))
         | Passthrough \<Rightarrow> Inr (JObj (mergeObjectSync (known @ extra))))"

fun parse :: "schema \<Rightarrow> jsval \<Rightarrow> error + jsval" where
  "parse ZString v = (case v of JStr s \<Rightarrow> Inr v | _ \<Rightarrow> Inl ZodError)"
| "parse ZBoolean v = (case v of JBool b \<Rightarrow> Inr v | _ \<Rightarrow> Inl ZodError)"
| "parse (ZNumber cs) v =
     (case v of JNum n \<Rightarrow> if list_all (numcheck_ok n) cs then Inr v else Inl ZodError
              | _ \<Rightarrow> Inl ZodError)"
| "parse ZUnknown v = Inr v"
| "parse (ZLiteral l) v = (if v = JStr l then Inr v else Inl ZodError)"
| "parse (ZEnum ls) v = (case v of JStr s \<Rightarrow> if s \<in> set ls then Inr v else Inl ZodError
                                 | _ \<Rightarrow> Inl ZodError)"
| "parse (ZArray s) v =
     (case v of
        JArr xs \<Rightarrow> (case sequence (map (parse s) xs) of Inl e \<Rightarrow> Inl e | Inr ys \<Rightarrow> Inr (JArr ys))
      | _ \<Rightarrow> Inl ZodError)"
| "parse (ZRecord s) v =
     (case v of
        JObj kvs \<Rightarrow>
          (case sequence (map (\<lambda>k. tag_field k (parse s (get_key kvs k))) (own_keys kvs)) of
             Inl e \<Rightarrow> Inl e
           | Inr out \<Rightarrow> Inr (JObj (mergeObjectSync (map (\<lambda>kr. (fst kr, snd kr, True)) out))))
      | _ \<Rightarrow> Inl ZodError)"
| "parse (ZObject shape uk) v =
     (case v of
        JObj kvs \<Rightarrow>
          (case sequence (map (\<lambda>ks. tag_field (fst ks) (parse (snd ks) (get_key kvs (fst ks)))) shape) of
             Inl e \<Rightarrow> Inl e
           | Inr parsed \<Rightarrow> finish_object uk (map fst shape) kvs parsed)
      | _ \<Rightarrow> Inl ZodError)"
| "parse (ZUnion opts) v = first_ok (map (\<lambda>s. parse s v) opts)"
| "parse (ZDiscriminatedUnion d opts) v =
     (case v of
        JObj kvs \<Rightarrow>
          first_ok (map (\<lambda>ts. if get_key kvs d = JStr (fst ts) then parse (snd ts) v else Inl ZodError) opts)
      | _ \<Rightarrow> Inl ZodError)"
| "parse (ZNullable s) v = (if v = JNull then Inr JNull else parse s v)"
| "parse (ZOptional s) v = (if v = JUndefined then Inr JUndefined else parse s v)"

subsection \<open>Cookie schemas (types/cookie.ts)\<close>

definition CookieSchema :: schema where
  "CookieSchema = ZObject
     [(''name'', ZString),
      (''value'', ZString),
      (''domain'', ZString),
      (''path'', ZString),
      (''httpOnly'', ZBoolean),
      (''expirationDate'', ZOptional (ZNullable (ZNumber []))),
      (''hostOnly'', ZOptional (ZNullable ZBoolean)),
      (''sameSite'', ZOptional (ZNullable (ZEnum [''Lax'', ''None'', ''Strict'']))),
      (''secure'', ZOptional (ZNullable ZBoolean)),
      (''session'', ZOptional (ZNullable ZBoolean)),
      (''storeId'', ZOptional (ZNullable ZString)),
      (''expires'', ZOptional (ZNullable (ZNumber []))),
      (''partitionKey'', ZOptional (ZNullable ZString))]
     Passthrough"

definition SetCookiesRequestSchema :: schema where
  "SetCookiesRequestSchema = ZObject [(''cookies'', ZArray CookieSchema)] Strict"

definition SetCookiesResponseSchema :: schema where
  "SetCookiesResponseSchema = ZObject [(''success'', ZBoolean), (''message'', ZString)] Passthrough"

definition GetCookiesResponseSchema :: schema where
  "GetCookiesResponseSchema = ZObject [(''cookies'', ZArray CookieSchema)] Passthrough"

subsection \<open>Session schemas (types/session.ts)\<close>

definition NotteProxySchema :: schema where
  "NotteProxySchema = ZObject
     [(''type'', ZLiteral ''notte''),
      (''id'', ZOptional (ZNullable ZString)),
      (''country'', ZOptional (ZNullable ZString))]
     Strip"

definition ExternalProxySchema :: schema where
  "ExternalProxySchema = ZObject
     [(''type'', ZLiteral ''external''),
      (''server'', ZString),
      (''username'', ZOptional (ZNullable ZString)),
      (''password'', ZOptional (ZNullable ZString)),
      (''bypass'', ZOptional (ZNullable ZString))]
     Strip"

definition ProxySettingsSchema :: schema where
  "ProxySettingsSchema = ZDiscriminatedUnion ''type''
     [(''notte'', NotteProxySchema), (''external'', ExternalProxySchema)]"

definition SessionProfileSchema :: schema where
  "SessionProfileSchema = ZObject [(''id'', ZString), (''persist'', ZOptional ZBoolean)] Strip"

definition SessionStartRequestShape :: "(string \<times> schema) list" where
  "SessionStartRequestShape =
     [(''headless'', ZOptional ZBoolean),
      (''solve_captchas'', ZOptional ZBoolean),
      (''max_duration_minutes'', ZOptional (ZNumber [IsInt, IsPositive])),
      (''idle_timeout_minutes'', ZOptional (ZNumber [IsInt, IsPositive])),
      (''proxies'', ZOptional (ZUnion [ZArray ProxySettingsSchema, ZBoolean, ZString])),
      (''browser_type'', ZOptional ZString),
      (''user_agent'', ZOptional (ZNullable ZString)),
      (''chrome_args'', ZOptional (ZNullable (ZArray ZString))),
      (''viewport_width'', ZOptional (ZNullable (ZNumber [IsInt]))),
      (''viewport_height'', ZOptional (ZNullable (ZNumber [IsInt]))),
      (''cdp_url'', ZOptional (ZNullable ZString)),
      (''use_file_storage'', ZOptional ZBoolean),
      (''screenshot_type'', ZOptional ZString),
      (''profile'', ZOptional (ZNullable SessionProfileSchema)),
      (''web_bot_auth'', ZOptional ZBoolean)]"

definition SessionStartRequestSchema :: schema where
  "SessionStartRequestSchema = ZObject SessionStartRequestShape Strict"

definition SessionResponseShape :: "(string \<times> schema) list" where
  "SessionResponseShape =
     [(''session_id'', ZString),
      (''idle_timeout_minutes'', ZNumber [IsInt]),
      (''max_duration_minutes'', ZNumber [IsInt]),
      (''created_at'', ZString),
      (''closed_at'', ZOptional (ZNullable ZString)),
      (''last_accessed_at'', ZString),
      (''duration'', ZOptional ZUnknown),
      (''status'', ZEnum [''active'', ''closed'', ''error'', ''timed_out'']),
      (''steps'', ZOptional (ZArray (ZRecord ZUnknown))),
      (''error'', ZOptional (ZNullable ZString)),
      (''credit_usage'', ZOptional (ZNullable (ZNumber []))),
      (''proxies'', ZOptional ZBoolean),
      (''browser_type'', ZOptional ZString),
      (''use_file_storage'', ZOptional ZBoolean),
      (''network_request_bytes'', ZOptional (ZNumber [])),
      (''network_response_bytes'', ZOptional (ZNumber [])),
      (''user_agent'', ZOptional (ZNullable ZString)),
      (''viewport_width'', ZOptional (ZNullable (ZNumber []))),
      (''viewport_height'', ZOptional (ZNullable (ZNumber []))),
      (''headless'', ZOptional ZBoolean),
      (''solve_captchas'', ZOptional (ZNullable ZBoolean)),
      (''cdp_url'', ZOptional (ZNullable ZString)),
      (''viewer_url'', ZOptional (ZNullable ZString)),
      (''web_bot_auth'', ZOptional ZBoolean)]"

definition SessionResponseSchema :: schema where
  "SessionResponseSchema = ZObject SessionResponseShape Passthrough"

definition SessionListRequestSchema :: schema where
  "SessionListRequestSchema = ZObject
     [(''only_active'', ZOptional ZBoolean),
      (''page_size'', ZOptional (ZNumber [IsInt])),
      (''page'', ZOptional (ZNumber [IsInt]))]
     Strict"

subsection \<open>Page schemas (types/page.ts)\<close>

definition ScrapeRequestSchema :: schema where
  "ScrapeRequestSchema = ZObject
     [(''selector'', ZOptional (ZNullable ZString)),
      (''scrape_links'', ZOptional ZBoolean),
      (''scrape_images'', ZOptional ZBoolean),
      (''ignored_tags'', ZOptional (ZNullable (ZArray ZString))),
      (''only_main_content'', ZOptional ZBoolean),
      (''only_images'', ZOptional ZBoolean),
      (''response_format'', ZOptional (ZNullable (ZRecord ZUnknown))),
      (''instructions'', ZOptional (ZNullable ZString)),
      (''use_link_placeholders'', ZOptional ZBoolean)]
     Strict"

definition ScrapeResponseSchema :: schema where
  "ScrapeResponseSchema = ZObject
     [(''session'', SessionResponseSchema),
      (''markdown'', ZOptional (ZNullable ZString)),
      (''structured_data'', ZOptional (ZNullable ZUnknown)),
      (''images'', ZOptional (ZNullable (ZArray ZUnknown))),
      (''metadata'', ZOptional (ZRecord ZUnknown))]
     Passthrough"

definition ObserveRequestSchema :: schema where
  "ObserveRequestSchema = ZObject
     [(''url'', ZOptional (ZNullable ZString)),
      (''instructions'', ZOptional (ZNullable ZString)),
      (''perception_type'', ZOptional (ZNullable ZString)),
      (''min_nb_actions'', ZOptional (ZNullable (ZNumber [IsInt]))),
      (''max_nb_actions'', ZOptional (ZNumber [IsInt]))]
     Strict"

definition ObserveResponseSchema :: schema where
  "ObserveResponseSchema = ZObject
     [(''session'', SessionResponseSchema),
      (''metadata'', ZOptional (ZRecord ZUnknown)),
      (''space'', ZOptional (ZNullable ZUnknown)),
      (''screenshot'', ZOptional (ZNullable ZUnknown))]
     Passthrough"

definition ExecutionRequestSchema :: schema where
  "ExecutionRequestSchema = ZObject
     [(''type'', ZString),
      (''id'', ZOptional (ZNullable ZString)),
      (''value'', ZOptional (ZNullable (ZUnion [ZString, ZNumber []]))),
      (''enter'', ZOptional (ZNullable ZBoolean)),
      (''selector'', ZOptional (ZNullable ZUnknown)),
      (''url'', ZOptional ZString),
      (''key'', ZOptional ZString),
      (''milliseconds'', ZOptional (ZNumber [])),
      (''path'', ZOptional ZString),
      (''script'', ZOptional ZString),
      (''tab_idx'', ZOptional (ZNumber []))]
     Strict"

definition ExecutionResponseSchema :: schema where
  "ExecutionResponseSchema = ZObject
     [(''session'', SessionResponseSchema),
      (''success'', ZOptional ZBoolean),
      (''message'', ZOptional (ZNullable ZString)),
      (''exception'', ZOptional (ZNullable ZString)),
      (''url'', ZOptional (ZNullable ZString))]
     Passthrough"

section \<open>Endpoints (endpoint.ts)\<close>

datatype http_method = GET | POST | DELETE | PATCH

text \<open>
  An endpoint descriptor, with the optional \<open>body\<close> and \<open>params\<close> that \<open>rawRequest\<close>
  accepts; \<open>None\<close> is an absent (or \<open>undefined\<close>) property.
\<close>

record NotteEndpoint =
  path :: string
  method' :: http_method
  responseSchema :: schema
  body :: "jsval option"
  params :: "jsval option"

definition withBody :: "NotteEndpoint \<Rightarrow> jsval \<Rightarrow> NotteEndpoint" where
  "withBody endpoint b = endpoint\<lparr>body := Some b\<rparr>"

definition withParams :: "NotteEndpoint \<Rightarrow> jsval \<Rightarrow> NotteEndpoint" where
  "withParams endpoint ps = endpoint\<lparr>params := Some ps\<rparr>"

section \<open>The platform: URL, timers, fetch\<close>

text \<open>
  A response has a status and a body. The body is absent, or text that is valid JSON (given
  by the value it denotes), or text that is not.
\<close>

datatype resp_body = NoBody | JsonBody jsval | TextBody string

record response =
  status :: nat
  content :: resp_body

definition ok :: "response \<Rightarrow> bool" where
  "ok r = (200 \<le> status r \<and> status r \<le> 299)"

text \<open>
  \<open>response.json()\<close> reads the body to its end and parses it. Once read, a body cannot be
  read again: the Fetch standard's \<^emph>\<open>consume body\<close> rejects with a \<open>TypeError\<close> when the
  body is unusable, that is, present and already read. \<open>text_after_json\<close> is
  \<open>response.text()\<close> called after \<open>response.json()\<close> has rejected.
\<close>

definition response_json :: "response \<Rightarrow> error + jsval" where
  "response_json r =
     (case content r of
        JsonBody v \<Rightarrow> Inr v
      | NoBody \<Rightarrow> Inl (SyntaxError ''Unexpected end of JSON input'')
      | TextBody t \<Rightarrow> Inl (SyntaxError ''Unexpected token in JSON''))"

definition text_after_json :: "response \<Rightarrow> error + string" where
  "text_after_json r =
     (case content r of
        NoBody \<Rightarrow> Inr []
      | _ \<Rightarrow> Inl (TypeError ''Body is unusable: Body has already been read''))"

text \<open>What is handed to \<open>fetch\<close>: the URL built by \<open>buildUrl\<close> with the search parameters
  set on it, the method, the headers and the JSON body (the value that is serialised).\<close>

record fetch_request =
  req_url :: string
  req_query :: "(string \<times> string) list"
  req_method :: http_method
  req_headers :: "(string \<times> string) list"
  req_body :: "jsval option"

datatype settled = Resolves response | Rejects error

text \<open>
  The platform the client runs on. \<open>url_valid\<close> says whether \<open>new URL(s)\<close> accepts a
  string. \<open>fetch\<close> gives, from the requests issued before and the request issued now, the
  time in milliseconds the transport takes and how it settles when it is left alone.
  \<open>SDK_VERSION\<close> is the constant of \<open>version.ts\<close>, which is not among the sources.
\<close>

record platform =
  url_valid :: "string \<Rightarrow> bool"
  fetch :: "fetch_request list \<Rightarrow> fetch_request \<Rightarrow> nat \<times> settled"
  SDK_VERSION :: string

text \<open>
  The world a request runs in: the requests issued so far and the pending timers, each with
  the delay in milliseconds after which it fires.
\<close>

record world =
  fetched :: "fetch_request list"
  pending :: "(nat \<times> nat) list"
  next_timer :: nat

text \<open>The delay the runtime gives a timer: one below 1 or above 2147483647 is taken as 1.\<close>

definition timer_delay :: "int \<Rightarrow> nat" where
  "timer_delay ms = (if ms < 1 \<or> ms > 2147483647 then 1 else nat ms)"

definition setTimeout :: "int \<Rightarrow> world \<Rightarrow> nat \<times> world" where
  "setTimeout ms w =
     (next_timer w,
      w\<lparr>pending := (next_timer w, timer_delay ms) # pending w, next_timer := Suc (next_timer w)\<rparr>)"

definition clearTimeout :: "nat \<Rightarrow> world \<Rightarrow> world" where
  "clearTimeout t w = w\<lparr>pending := filter (\<lambda>td. fst td \<noteq> t) (pending w)\<rparr>"

text \<open>
  \<open>fetch(url, {signal})\<close> with the signal of the controller that the timer \<open>timer\<close>
  aborts: when that timer is pending and the transport has not settled by the time it is
  due, the timer fires (and is no longer pending), its callback aborts the controller, and
  the platform rejects the fetch with a \<open>DOMException\<close> named \<open>AbortError\<close>. Without a
  pending timer the transport settles as it does when left alone.
\<close>

definition fetch_with_timer ::
  "platform \<Rightarrow> nat \<Rightarrow> fetch_request \<Rightarrow> world \<Rightarrow> settled \<times> world" where
  "fetch_with_timer pf timer req w =
     (let (delay, res) = fetch pf (fetched w) req;
          w' = w\<lparr>fetched := fetched w @ [req]\<rparr>
      in case map_of (pending w') timer of
           None \<Rightarrow> (res, w')
         | Some due \<Rightarrow>
             if due \<le> delay
             then (Rejects (DOMException ''AbortError'' ''This operation was aborted''),
                   w'\<lparr>pending := filter (\<lambda>td. fst td \<noteq> timer) (pending w')\<rparr>)
             else (res, w'))"

section \<open>Requests (base-client.ts)\<close>

definition getHeaders :: "platform \<Rightarrow> BaseClient \<Rightarrow> (string \<times> string) list" where
  "getHeaders pf c =
     [(''Authorization'', ''Bearer '' @ apiKey c),
      (''Content-Type'', ''application/json''),
      (''x-notte-sdk-version'', SDK_VERSION pf),
      (''x-notte-request-origin'', ''sdk'')]"

text \<open>\<open>Object.entries\<close> of a parameter record.\<close>

fun entries :: "jsval \<Rightarrow> (string \<times> jsval) list" where
  "entries (JObj kvs) = kvs"
| "entries _ = []"

text \<open>\<open>url.searchParams.set(k, v)\<close>\<close>

fun searchParams_set :: "(string \<times> string) list \<Rightarrow> string \<Rightarrow> string \<Rightarrow> (string \<times> string) list" where
  "searchParams_set [] k v = [(k, v)]"
| "searchParams_set ((k', v') # q) k v =
     (if k' = k then (k, v) # filter (\<lambda>kv. fst kv \<noteq> k) q else (k', v') # searchParams_set q k v)"

text \<open>\<open>if (endpoint.body)\<close>, \<open>if (endpoint.params)\<close>: the property is there and truthy.\<close>

definition present :: "jsval option \<Rightarrow> bool" where
  "present x = (case x of None \<Rightarrow> False | Some v \<Rightarrow> truthy v)"

definition build_query :: "jsval option \<Rightarrow> (string \<times> string) list" where
  "build_query ps =
     (case ps of
        None \<Rightarrow> []
      | Some p \<Rightarrow>
          if truthy p
          then fold (\<lambda>kv q. if snd kv \<noteq> JUndefined \<and> snd kv \<noteq> JNull
                             then searchParams_set q (fst kv) (String_js (snd kv)) else q)
                    (entries p) []
          else [])"

definition is_abort :: "error \<Rightarrow> bool" where
  "is_abort err = (case err of DOMException name msg \<Rightarrow> name = ''AbortError'' | _ \<Rightarrow> False)"

text \<open>The non-success branch of \<open>rawRequest\<close>: the body is read as JSON, or else as text.\<close>

definition read_error_body :: "response \<Rightarrow> error + jsval" where
  "read_error_body r =
     (case response_json r of
        Inr b \<Rightarrow> Inr b
      | Inl _ \<Rightarrow> (case text_after_json r of Inl e \<Rightarrow> Inl e | Inr t \<Rightarrow> Inr (JStr t)))"

text \<open>
  \<open>JSON.stringify(v)\<close>, given by the JSON value that the text denotes: a \<open>BigInt\<close>
  anywhere in the value is a \<open>TypeError\<close>, a key whose value is \<open>undefined\<close> is left out,
  an \<open>undefined\<close> element of an array becomes \<open>null\<close>.
\<close>

fun JSON_stringify :: "jsval \<Rightarrow> error + jsval" where
  "JSON_stringify (JBigInt n) = Inl (TypeError ''Do not know how to serialize a BigInt'')"
| "JSON_stringify (JArr xs) =
     (case sequence (map JSON_stringify xs) of
        Inl e \<Rightarrow> Inl e
      | Inr ys \<Rightarrow> Inr (JArr (map (\<lambda>y. if y = JUndefined then JNull else y) ys)))"
| "JSON_stringify (JObj kvs) =
     (case sequence (map (\<lambda>kv. tag_field (fst kv) (JSON_stringify (snd kv))) kvs) of
        Inl e \<Rightarrow> Inl e
      | Inr out \<Rightarrow> Inr (JObj (filter (\<lambda>kv. snd kv \<noteq> JUndefined) out)))"
| "JSON_stringify v = Inr v"

text \<open>\<open>init.body\<close>: only a POST or PATCH with a body carries one, serialised.\<close>

definition init_body :: "NotteEndpoint \<Rightarrow> error + jsval option" where
  "init_body endpoint =
     (if (method' endpoint = POST \<or> method' endpoint = PATCH) \<and> present (body endpoint)
      then (case body endpoint of
              None \<Rightarrow> Inr None
            | Some b \<Rightarrow> (case JSON_stringify b of Inl e \<Rightarrow> Inl e | Inr j \<Rightarrow> Inr (Some j)))
      else Inr None)"

text \<open>The request that \<open>rawRequest\<close> hands to \<open>fetch\<close>: the URL with its search
  parameters and \<open>init\<close> with the serialised body \<open>b\<close>.\<close>

definition fetch_init ::
  "platform \<Rightarrow> BaseClient \<Rightarrow> NotteEndpoint \<Rightarrow> jsval option \<Rightarrow> fetch_request" where
  "fetch_init pf c endpoint b =
     \<lparr>req_url = buildUrl c (path endpoint),
      req_query = build_query (params endpoint),
      req_method = method' endpoint,
      req_headers = getHeaders pf c,
      req_body = b\<rparr>"

text \<open>
  \<open>rawRequest\<close>. The timer is set before \<open>init\<close> is built, and \<open>JSON.stringify\<close> runs
  before the \<open>try\<close> block: when it throws, neither \<open>catch\<close> nor \<open>finally\<close> runs.
\<close>

definition rawRequest ::
  "platform \<Rightarrow> BaseClient \<Rightarrow> NotteEndpoint \<Rightarrow> world \<Rightarrow> (error + jsval) \<times> world" where
  "rawRequest pf c endpoint w =
     (if \<not> url_valid pf (buildUrl c (path endpoint)) then (Inl (TypeError ''Invalid URL''), w)
      else
        let (timer, w1) = setTimeout (timeoutMs c) w
        in case init_body endpoint of
             Inl e \<Rightarrow> (Inl e, w1)
           | Inr b \<Rightarrow>
               let (res, w2) = fetch_with_timer pf timer (fetch_init pf c endpoint b) w1
               in case res of
                    Rejects err \<Rightarrow>
                      let w3 = clearTimeout timer w2;
                          w4 = clearTimeout timer w3
                      in if is_abort err
                         then (Inl (NotteAPIError 0 (JStr ''Request timed out'') (path endpoint)), w4)
                         else (Inl err, w4)
                  | Resolves r \<Rightarrow>
                      let w3 = clearTimeout timer w2
                      in if \<not> ok r
                         then (case read_error_body r of
                                 Inl e \<Rightarrow> (Inl e, w3)
                               | Inr b \<Rightarrow> (Inl (NotteAPIError (status r) b (path endpoint)), w3))
                         else (response_json r, w3))"

definition request ::
  "platform \<Rightarrow> BaseClient \<Rightarrow> NotteEndpoint \<Rightarrow> world \<Rightarrow> (error + jsval) \<times> world" where
  "request pf c endpoint w =
     (case rawRequest pf c endpoint w of
        (Inl e, w') \<Rightarrow> (Inl e, w')
      | (Inr raw, w') \<Rightarrow> (parse (responseSchema endpoint) raw, w'))"

definition requestList ::
  "platform \<Rightarrow> BaseClient \<Rightarrow> NotteEndpoint \<Rightarrow> world \<Rightarrow> (error + jsval list) \<times> world" where
  "requestList pf c endpoint w =
     (case rawRequest pf c endpoint w of
        (Inl e, w') \<Rightarrow> (Inl e, w')
      | (Inr raw, w') \<Rightarrow>
          (case raw of
             JArr xs \<Rightarrow> (sequence (map (parse (responseSchema endpoint)) xs), w')
           | JObj kvs \<Rightarrow>
               (case (if has_key kvs ''items'' then get_key kvs ''items'' else JUndefined) of
                  JArr xs \<Rightarrow> (sequence (map (parse (responseSchema endpoint)) xs), w')
                | _ \<Rightarrow> (Inl (NotteAPIError 0 (JStr ''Expected array or { items: [...] } response'')
                                (path endpoint)), w'))
           | _ \<Rightarrow> (Inl (NotteAPIError 0 (JStr ''Expected array or { items: [...] } response'')
                           (path endpoint)), w')))"

section \<open>The sessions client (sessions/sessions-client.ts)\<close>

text \<open>A \<open>SessionsClient\<close> is a \<open>BaseClient\<close> constructed with the prefix \<open>sessions\<close>.\<close>

definition new_SessionsClient :: "BaseClientOptions \<Rightarrow> process_env \<Rightarrow> error + BaseClient" where
  "new_SessionsClient opts env = new_BaseClient (Some ''sessions'') opts env"

definition endpoint :: "string \<Rightarrow> http_method \<Rightarrow> schema \<Rightarrow> NotteEndpoint" where
  "endpoint p m rs = \<lparr>path = p, method' = m, responseSchema = rs, body = None, params = None\<rparr>"

text \<open>An optional parameter object that was given is validated, one that was omitted is \<open>{}\<close>.\<close>

definition parse_or_empty :: "schema \<Rightarrow> jsval \<Rightarrow> error + jsval" where
  "parse_or_empty sch ps = (if truthy ps then parse sch ps else Inr (JObj []))"

definition SessionsClient_start ::
  "platform \<Rightarrow> BaseClient \<Rightarrow> jsval \<Rightarrow> world \<Rightarrow> (error + jsval) \<times> world" where
  "SessionsClient_start pf c ps w =
     (case parse_or_empty SessionStartRequestSchema ps of
        Inl e \<Rightarrow> (Inl e, w)
      | Inr b \<Rightarrow> request pf c (withBody (endpoint ''start'' POST SessionResponseSchema) b) w)"

definition SessionsClient_stop ::
  "platform \<Rightarrow> BaseClient \<Rightarrow> jsval \<Rightarrow> world \<Rightarrow> (error + jsval) \<times> world" where
  "SessionsClient_stop pf c sid w =
     request pf c (endpoint (String_js sid @ ''/stop'') DELETE SessionResponseSchema) w"

definition SessionsClient_status ::
  "platform \<Rightarrow> BaseClient \<Rightarrow> jsval \<Rightarrow> world \<Rightarrow> (error + jsval) \<times> world" where
  "SessionsClient_status pf c sid w =
     request pf c (endpoint (String_js sid) GET SessionResponseSchema) w"

definition SessionsClient_list ::
  "platform \<Rightarrow> BaseClient \<Rightarrow> jsval \<Rightarrow> world \<Rightarrow> (error + jsval list) \<times> world" where
  "SessionsClient_list pf c ps w =
     (if truthy ps
      then (case parse SessionListRequestSchema ps of
              Inl e \<Rightarrow> (Inl e, w)
            | Inr q \<Rightarrow> requestList pf c (withParams (endpoint [] GET SessionResponseSchema) q) w)
      else requestList pf c (endpoint [] GET SessionResponseSchema) w)"

definition SessionsClient_scrape ::
  "platform \<Rightarrow> BaseClient \<Rightarrow> jsval \<Rightarrow> jsval \<Rightarrow> world \<Rightarrow> (error + jsval) \<times> world" where
  "SessionsClient_scrape pf c sid ps w =
     (case parse_or_empty ScrapeRequestSchema ps of
        Inl e \<Rightarrow> (Inl e, w)
      | Inr b \<Rightarrow>
          request pf c (withBody (endpoint (String_js sid @ ''/page/scrape'') POST ScrapeResponseSchema) b) w)"

definition SessionsClient_observe ::
  "platform \<Rightarrow> BaseClient \<Rightarrow> jsval \<Rightarrow> jsval \<Rightarrow> world \<Rightarrow> (error + jsval) \<times> world" where
  "SessionsClient_observe pf c sid ps w =
     (case parse_or_empty ObserveRequestSchema ps of
        Inl e \<Rightarrow> (Inl e, w)
      | Inr b \<Rightarrow>
          request pf c (withBody (endpoint (String_js sid @ ''/page/observe'') POST ObserveResponseSchema) b) w)"

definition SessionsClient_execute ::
  "platform \<Rightarrow> BaseClient \<Rightarrow> jsval \<Rightarrow> jsval \<Rightarrow> world \<Rightarrow> (error + jsval) \<times> world" where
  "SessionsClient_execute pf c sid action w =
     (case parse ExecutionRequestSchema action of
        Inl e \<Rightarrow> (Inl e, w)
      | Inr b \<Rightarrow>
          request pf c (withBody (endpoint (String_js sid @ ''/page/execute'') POST ExecutionResponseSchema) b) w)"

text \<open>\<open>setCookies\<close> wraps its argument as \<open>{ cookies }\<close> and sends it; it parses nothing.\<close>

definition SessionsClient_setCookies ::
  "platform \<Rightarrow> BaseClient \<Rightarrow> jsval \<Rightarrow> jsval \<Rightarrow> world \<Rightarrow> (error + jsval) \<times> world" where
  "SessionsClient_setCookies pf c sid cookies w =
     request pf c (withBody (endpoint (String_js sid @ ''/cookies'') POST SetCookiesResponseSchema)
                            (JObj [(''cookies'', cookies)])) w"

definition SessionsClient_getCookies ::
  "platform \<Rightarrow> BaseClient \<Rightarrow> jsval \<Rightarrow> world \<Rightarrow> (error + jsval) \<times> world" where
  "SessionsClient_getCookies pf c sid w =
     request pf c (endpoint (String_js sid @ ''/cookies'') GET GetCookiesResponseSchema) w"

section \<open>The lifecycle wrapper (sessions/remote-session.ts)\<close>

text \<open>
  The private fields \<open>_sessionId\<close>, \<open>_response\<close> and \<open>_stopped\<close> are \<open>priv_sessionId\<close>,
  \<open>priv_response\<close> and \<open>priv_stopped\<close>; the first two hold \<open>null\<close> until they are assigned.
\<close>

record RemoteSession =
  client :: BaseClient
  options :: jsval
  priv_sessionId :: jsval
  priv_response :: jsval
  priv_stopped :: bool

definition new_RemoteSession :: "BaseClient \<Rightarrow> jsval \<Rightarrow> RemoteSession" where
  "new_RemoteSession c opts =
     \<lparr>client = c, options = opts, priv_sessionId = JNull, priv_response = JNull, priv_stopped = False\<rparr>"

definition sessionId :: "RemoteSession \<Rightarrow> error + jsval" where
  "sessionId s =
     (if \<not> truthy (priv_sessionId s)
      then Inl (Error ''Session has not been started. Call start() first.'')
      else Inr (priv_sessionId s))"

definition response_of :: "RemoteSession \<Rightarrow> jsval" where
  "response_of s = priv_response s"

definition isStarted :: "RemoteSession \<Rightarrow> bool" where
  "isStarted s = (priv_sessionId s \<noteq> JNull)"

definition isStopped :: "RemoteSession \<Rightarrow> bool" where
  "isStopped s = priv_stopped s"

definition RemoteSession_start ::
  "platform \<Rightarrow> RemoteSession \<Rightarrow> world \<Rightarrow> (error + jsval) \<times> RemoteSession \<times> world" where
  "RemoteSession_start pf s w =
     (if truthy (priv_sessionId s) then (Inl (Error ''Session already started''), s, w)
      else case SessionsClient_start pf (client s) (options s) w of
             (Inl e, w') \<Rightarrow> (Inl e, s, w')
           | (Inr r, w') \<Rightarrow>
               (Inr r, s\<lparr>priv_response := r, priv_sessionId := get_prop r ''session_id''\<rparr>, w'))"

definition RemoteSession_stop ::
  "platform \<Rightarrow> RemoteSession \<Rightarrow> world \<Rightarrow> (error + jsval) \<times> RemoteSession \<times> world" where
  "RemoteSession_stop pf s w =
     (if priv_stopped s then (Inr (priv_response s), s, w)
      else if \<not> truthy (priv_sessionId s) then (Inl (Error ''Session has not been started''), s, w)
      else case SessionsClient_stop pf (client s) (priv_sessionId s) w of
             (Inl e, w') \<Rightarrow> (Inl e, s, w')
           | (Inr r, w') \<Rightarrow> (Inr r, s\<lparr>priv_response := r, priv_stopped := True\<rparr>, w'))"

text \<open>The operations that forward to the client with \<open>this.sessionId\<close>; the getter may throw.\<close>

definition forward ::
  "(jsval \<Rightarrow> world \<Rightarrow> (error + jsval) \<times> world) \<Rightarrow> RemoteSession \<Rightarrow> world
     \<Rightarrow> (error + jsval) \<times> RemoteSession \<times> world" where
  "forward f s w =
     (case sessionId s of
        Inl e \<Rightarrow> (Inl e, s, w)
      | Inr sid \<Rightarrow> (case f sid w of (r, w') \<Rightarrow> (r, s, w')))"

definition RemoteSession_status ::
  "platform \<Rightarrow> RemoteSession \<Rightarrow> world \<Rightarrow> (error + jsval) \<times> RemoteSession \<times> world" where
  "RemoteSession_status pf s w = forward (SessionsClient_status pf (client s)) s w"

definition RemoteSession_scrape ::
  "platform \<Rightarrow> RemoteSession \<Rightarrow> jsval \<Rightarrow> world \<Rightarrow> (error + jsval) \<times> RemoteSession \<times> world" where
  "RemoteSession_scrape pf s ps w = forward (\<lambda>sid. SessionsClient_scrape pf (client s) sid ps) s w"

definition RemoteSession_observe ::
  "platform \<Rightarrow> RemoteSession \<Rightarrow> jsval \<Rightarrow> world \<Rightarrow> (error + jsval) \<times> RemoteSession \<times> world" where
  "RemoteSession_observe pf s ps w = forward (\<lambda>sid. SessionsClient_observe pf (client s) sid ps) s w"

definition RemoteSession_execute ::
  "platform \<Rightarrow> RemoteSession \<Rightarrow> jsval \<Rightarrow> world \<Rightarrow> (error + jsval) \<times> RemoteSession \<times> world" where
  "RemoteSession_execute pf s action w =
     forward (\<lambda>sid. SessionsClient_execute pf (client s) sid action) s w"

definition RemoteSession_setCookies ::
  "platform \<Rightarrow> RemoteSession \<Rightarrow> jsval \<Rightarrow> world \<Rightarrow> (error + jsval) \<times> RemoteSession \<times> world" where
  "RemoteSession_setCookies pf s cookies w =
     forward (\<lambda>sid. SessionsClient_setCookies pf (client s) sid cookies) s w"

definition RemoteSession_getCookies ::
  "platform \<Rightarrow> RemoteSession \<Rightarrow> world \<Rightarrow> (error + jsval) \<times> RemoteSession \<times> world" where
  "RemoteSession_getCookies pf s w = forward (SessionsClient_getCookies pf (client s)) s w"

definition fromId :: "BaseClient \<Rightarrow> string \<Rightarrow> RemoteSession" where
  "fromId c sid = (new_RemoteSession c (JObj []))\<lparr>priv_sessionId := JStr sid\<rparr>"

definition asyncDispose ::
  "platform \<Rightarrow> RemoteSession \<Rightarrow> world \<Rightarrow> (error + unit) \<times> RemoteSession \<times> world" where
  "asyncDispose pf s w =
     (if truthy (priv_sessionId s) \<and> \<not> priv_stopped s
      then (case RemoteSession_stop pf s w of
              (Inl e, s', w') \<Rightarrow> (Inl e, s', w')
            | (Inr r, s', w') \<Rightarrow> (Inr (), s', w'))
      else (Inr (), s, w))"

subsection \<open>The guarded-use helper\<close>

text \<open>
  The work function handed to \<open>RemoteSession.use\<close> is any terminating computation that
  talks to the wrapper it receives: it returns, throws, or awaits one operation and goes on
  from the outcome (a value, or the error it caught).
\<close>

datatype session_op =
    CallStart
  | CallStop
  | CallStatus
  | CallScrape jsval
  | CallObserve jsval
  | CallExecute jsval
  | CallSetCookies jsval
  | CallGetCookies
  | ReadSessionId
  | ReadResponse
  | ReadIsStarted
  | ReadIsStopped

datatype 'a work =
    Done 'a
  | Throw error
  | Await session_op "(error + jsval) \<Rightarrow> 'a work"

fun exec_op ::
  "platform \<Rightarrow> session_op \<Rightarrow> RemoteSession \<Rightarrow> world \<Rightarrow> (error + jsval) \<times> RemoteSession \<times> world" where
  "exec_op pf CallStart s w = RemoteSession_start pf s w"
| "exec_op pf CallStop s w = RemoteSession_stop pf s w"
| "exec_op pf CallStatus s w = RemoteSession_status pf s w"
| "exec_op pf (CallScrape ps) s w = RemoteSession_scrape pf s ps w"
| "exec_op pf (CallObserve ps) s w = RemoteSession_observe pf s ps w"
| "exec_op pf (CallExecute a) s w = RemoteSession_execute pf s a w"
| "exec_op pf (CallSetCookies cs) s w = RemoteSession_setCookies pf s cs w"
| "exec_op pf CallGetCookies s w = RemoteSession_getCookies pf s w"
| "exec_op pf ReadSessionId s w = (sessionId s, s, w)"
| "exec_op pf ReadResponse s w = (Inr (response_of s), s, w)"
| "exec_op pf ReadIsStarted s w = (Inr (JBool (isStarted s)), s, w)"
| "exec_op pf ReadIsStopped s w = (Inr (JBool (isStopped s)), s, w)"

primrec run_work ::
  "platform \<Rightarrow> 'a work \<Rightarrow> RemoteSession \<Rightarrow> world \<Rightarrow> (error + 'a) \<times> RemoteSession \<times> world" where
  "run_work pf (Done x) = (\<lambda>s w. (Inr x, s, w))"
| "run_work pf (Throw e) = (\<lambda>s w. (Inl e, s, w))"
| "run_work pf (Await c k) =
     (\<lambda>s w. case exec_op pf c s w of (r, s', w') \<Rightarrow> run_work pf (k r) s' w')"

text \<open>
  \<open>use\<close>: \<open>start()\<close>, then \<open>try { return await fn(session) } finally { await session.stop() }\<close>.
  An error thrown by the \<open>finally\<close> block replaces the outcome of the \<open>try\<close> block.
\<close>

definition use ::
  "platform \<Rightarrow> BaseClient \<Rightarrow> jsval \<Rightarrow> 'a work \<Rightarrow> world \<Rightarrow> (error + 'a) \<times> world" where
  "use pf c opts fn w =
     (case RemoteSession_start pf (new_RemoteSession c opts) w of
        (Inl e, s1, w1) \<Rightarrow> (Inl e, w1)
      | (Inr r, s1, w1) \<Rightarrow>
          (case run_work pf fn s1 w1 of
             (res, s2, w2) \<Rightarrow>
               (case RemoteSession_stop pf s2 w2 of
                  (Inl e, s3, w3) \<Rightarrow> (Inl e, w3)
                | (Inr r', s3, w3) \<Rightarrow> (res, w3))))"

text \<open>A work function that never calls \<open>stop()\<close> on the wrapper itself.\<close>

primrec stop_free :: "'a work \<Rightarrow> bool" where
  "stop_free (Done x) = True"
| "stop_free (Throw e) = True"
| "stop_free (Await c k) = (c \<noteq> CallStop \<and> (\<forall>r. stop_free (k r)))"

text \<open>The stop requests issued so far: \<open>stop\<close> is the only operation that sends a DELETE.\<close>

definition stop_requests :: "world \<Rightarrow> fetch_request list" where
  "stop_requests w = filter (\<lambda>r. req_method r = DELETE) (fetched w)"

text \<open>The request that \<open>stop()\<close> sends for a wrapper.\<close>

definition stop_request :: "platform \<Rightarrow> RemoteSession \<Rightarrow> fetch_request" where
  "stop_request pf s =
     fetch_init pf (client s)
       (endpoint (String_js (priv_sessionId s) @ ''/stop'') DELETE SessionResponseSchema) None"

section \<open>Fixtures\<close>

text \<open>The client, the responses and the mocked transport of the test suite.\<close>

definition test_client :: BaseClient where
  "test_client =
     \<lparr>apiKey = ''test-key'', serverUrl = ''https://api.notte.cc'', timeoutMs = 60000,
      baseEndpointPath = Some ''sessions''\<rparr>"


definition session_response :: "string \<Rightarrow> string \<Rightarrow> jsval" where
  "session_response sid st =
     JObj [(''session_id'', JStr sid),
           (''idle_timeout_minutes'', JNum 3),
           (''max_duration_minutes'', JNum 15),
           (''created_at'', JStr ''2024-01-01T00:00:00Z''),
           (''last_accessed_at'', JStr ''2024-01-01T00:00:00Z''),
           (''status'', JStr st)]"

definition MOCK_SESSION_RESPONSE :: jsval where
  "MOCK_SESSION_RESPONSE = session_response ''sess-456'' ''active''"

definition MOCK_STOPPED_RESPONSE :: jsval where
  "MOCK_STOPPED_RESPONSE = session_response ''sess-456'' ''closed''"

definition empty_world :: world where
  "empty_world = \<lparr>fetched = [], pending = [], next_timer = 0\<rparr>"

text \<open>An action that its schema accepts (\<open>selector\<close> is \<open>unknown\<close>) and that cannot be
  serialised.\<close>

definition bigint_action :: jsval where
  "bigint_action = JObj [(''type'', JStr ''click''), (''selector'', JBigInt 10)]"

text \<open>A response whose JSON text has the key \<open>__proto__\<close>.\<close>

definition proto_response :: "(string \<times> jsval) list" where
  "proto_response = entries MOCK_SESSION_RESPONSE @ [(''__proto__'', JStr ''value'')]"

definition future_response :: "(string \<times> jsval) list" where
  "future_response = entries MOCK_SESSION_RESPONSE @ [(''some_future_field'', JStr ''value'')]"

text \<open>\<open>mockResolvedValueOnce\<close>: the n-th call to \<open>fetch\<close> settles as the n-th entry says;
  a call beyond the list fails as an unreachable network does.\<close>

definition mock_platform :: "(nat \<times> settled) list \<Rightarrow> platform" where
  "mock_platform outcomes =
     \<lparr>url_valid = (\<lambda>u. True),
      fetch = (\<lambda>h r. if length h < length outcomes then outcomes ! length h
                      else (0, Rejects (TypeError ''fetch failed''))),
      SDK_VERSION = ''0.1.0''\<rparr>"

definition json_response :: "nat \<Rightarrow> jsval \<Rightarrow> nat \<times> settled" where
  "json_response st v = (5, Resolves \<lparr>status = st, content = JsonBody v\<rparr>)"

definition text_response :: "nat \<Rightarrow> string \<Rightarrow> nat \<times> settled" where
  "text_response st t = (5, Resolves \<lparr>status = st, content = TextBody t\<rparr>)"

text \<open>The schema and endpoint of the list tests.\<close>

definition id_schema :: schema where
  "id_schema = ZObject [(''id'', ZNumber [])] Strip"

definition list_endpoint :: NotteEndpoint where
  "list_endpoint = endpoint ''list'' GET id_schema"

text \<open>The transport of the lifecycle tests: \<open>start\<close> then \<open>stop\<close> succeed.\<close>

definition start_stop_platform :: platform where
  "start_stop_platform =
     mock_platform [json_response 200 MOCK_SESSION_RESPONSE, json_response 200 MOCK_STOPPED_RESPONSE]"

text \<open>A server that starts the session and then fails to stop it.\<close>

definition stop_fails_platform :: platform where
  "stop_fails_platform =
     mock_platform [json_response 200 MOCK_SESSION_RESPONSE,
                    json_response 500 (JObj [(''detail'', JStr ''Internal error'')])]"

text \<open>A server that answers \<open>start\<close> with an empty session identifier.\<close>

definition empty_id_platform :: platform where
  "empty_id_platform = mock_platform [json_response 200 (session_response [] ''active'')]"

text \<open>A server that refuses the first \<open>start\<close> and accepts the second.\<close>

definition retry_platform :: platform where
  "retry_platform =
     mock_platform [json_response 503 (JObj [(''detail'', JStr ''Busy'')]),
                    json_response 200 MOCK_SESSION_RESPONSE]"


section \<open>Properties\<close>

subsection \<open>The fixtures are what the constructors give\<close>

lemma test_client_constructed:
  "new_SessionsClient
     \<lparr>opt_apiKey = Some ''test-key'', opt_serverUrl = None, opt_timeoutMs = None\<rparr>
     \<lparr>NOTTE_API_KEY = None, NOTTE_API_URL = None\<rparr> = Inr test_client"
  by (simp add: new_SessionsClient_def new_BaseClient_def nullish_or_def test_client_def
        DEFAULT_SERVER_URL_def DEFAULT_TIMEOUT_MS_def)

lemma missing_key_is_AuthenticationError:
  "new_SessionsClient
     \<lparr>opt_apiKey = None, opt_serverUrl = None, opt_timeoutMs = None\<rparr>
     \<lparr>NOTTE_API_KEY = None, NOTTE_API_URL = None\<rparr>
   = Inl (AuthenticationError ''NOTTE_API_KEY needs to be provided'')"
  by (simp add: new_SessionsClient_def new_BaseClient_def nullish_or_def)

subsection \<open>URL building\<close>






subsection \<open>Schemas\<close>

lemma sequence_Inl: "sequence rs = Inl e \<Longrightarrow> Inl e \<in> set rs"
  by (induction rs rule: sequence.induct) (auto split: sum.splits)

lemma sequence_map_Inr: "sequence (map Inr ys) = Inr ys"
  by (induction ys) auto

lemma sequence_Inr: "sequence rs = Inr ys \<Longrightarrow> rs = map Inr ys"
  by (induction rs arbitrary: ys rule: sequence.induct) (auto split: sum.splits)

lemma sequence_Inr_iff: "sequence rs = Inr ys \<longleftrightarrow> rs = map Inr ys"
  using sequence_Inr sequence_map_Inr by metis

lemma first_ok_Inl: "first_ok rs = Inl e \<Longrightarrow> e = ZodError"
  by (induction rs rule: first_ok.induct) auto

lemma tag_field_Inl: "tag_field k r = Inl e \<longleftrightarrow> r = Inl e"
  by (auto simp: tag_field_def split: sum.splits)

lemma tag_field_Inl2: "Inl e = tag_field k r \<longleftrightarrow> r = Inl e"
  by (auto simp: tag_field_def split: sum.splits)

lemma tag_field_Inr: "tag_field k r = Inr kv \<longleftrightarrow> (\<exists>v. r = Inr v \<and> kv = (k, v))"
  by (auto simp: tag_field_def split: sum.splits)

lemma finish_object_Inl: "finish_object uk ks kvs parsed = Inl e \<Longrightarrow> e = ZodError"
  by (auto simp: finish_object_def Let_def split: unknownKeys.splits if_splits)

lemma parse_error: "parse s v = Inl e \<Longrightarrow> e = ZodError"
proof (induction s arbitrary: v e)
  case (ZArray s)
  then show ?case
    by (auto split: jsval.splits sum.splits dest!: sequence_Inl)
next
  case (ZRecord s)
  then show ?case
    by (auto split: jsval.splits sum.splits dest!: sequence_Inl simp: tag_field_Inl tag_field_Inl2)
next
  case (ZObject shape uk)
  then show ?case
    by (fastforce split: jsval.splits sum.splits dest!: sequence_Inl finish_object_Inl simp: tag_field_Inl tag_field_Inl2)
next
  case (ZUnion opts)
  then show ?case by (auto dest: first_ok_Inl)
next
  case (ZDiscriminatedUnion d opts)
  then show ?case by (auto split: jsval.splits dest: first_ok_Inl)
qed (auto split: jsval.splits if_splits)

lemma sequence_shape_keys:
  "sequence (map (\<lambda>ks. tag_field (fst ks) (f ks)) shape) = Inr parsed
     \<Longrightarrow> map fst parsed = map fst shape"
  by (induction shape arbitrary: parsed) (auto simp: tag_field_def split: sum.splits)

lemma map_of_filter_key:
  "P k \<Longrightarrow> map_of (filter (\<lambda>kv. P (fst kv)) kvs) k = map_of kvs k"
  by (induction kvs) auto

lemma get_key_filter:
  "P k \<Longrightarrow> get_key (filter (\<lambda>kv. P (fst kv)) kvs) k = get_key kvs k"
  by (simp add: get_key_def map_of_filter_key)

lemma has_key_filter:
  "P k \<Longrightarrow> has_key (filter (\<lambda>kv. P (fst kv)) kvs) k = has_key kvs k"
  by (auto simp: has_key_def)

lemma get_key_append_other:
  "k \<notin> set (map fst xs) \<Longrightarrow> get_key (xs @ ys) k = get_key ys k"
  by (induction xs) (auto simp: get_key_def)

lemma has_key_append_other:
  "k \<notin> set (map fst xs) \<Longrightarrow> has_key (xs @ ys) k = has_key ys k"
  by (auto simp: has_key_def)

lemma parse_strict_unknown_key:
  assumes "has_key kvs k" and "k \<notin> set (map fst shape)"
  shows "parse (ZObject shape Strict) (JObj kvs) = Inl ZodError"
proof -
  from assms have extra: "filter (\<lambda>k. k \<notin> set (map fst shape)) (own_keys kvs) \<noteq> []"
    by (auto simp: has_key_def own_keys_def filter_empty_conv)
  have "\<exists>e. parse (ZObject shape Strict) (JObj kvs) = Inl e"
    using extra by (auto simp: finish_object_def split: sum.splits)
  then show ?thesis
    using parse_error by blast
qed

lemma parse_object_fields_cong:
  assumes "\<And>k. k \<in> set (map fst shape) \<Longrightarrow> get_key kvs k = get_key kvs' k"
  shows "map (\<lambda>ks. tag_field (fst ks) (parse (snd ks) (get_key kvs (fst ks)))) shape
       = map (\<lambda>ks. tag_field (fst ks) (parse (snd ks) (get_key kvs' (fst ks)))) shape"
  using assms by (intro map_cong) auto

lemma mergeObjectSync_append:
  "mergeObjectSync (xs @ ys) = mergeObjectSync xs @ mergeObjectSync ys"
  by (simp add: mergeObjectSync_def)

lemma mergeObjectSync_keys: "set (map fst (mergeObjectSync pairs)) \<subseteq> set (map fst pairs)"
  by (auto simp: mergeObjectSync_def)

lemma mergeObjectSync_extra:
  "mergeObjectSync (map (\<lambda>k. (k, f k, False)) ks)
     = map (\<lambda>k. (k, f k)) (filter (\<lambda>k. k \<noteq> ''__proto__'' \<and> f k \<noteq> JUndefined) ks)"
  by (induction ks) (simp_all add: mergeObjectSync_def)

lemma get_key_tabulate:
  "k \<in> set ks \<Longrightarrow> get_key (map (\<lambda>k. (k, f k)) ks) k = f k"
  by (induction ks) (auto simp: get_key_def)

lemma has_key_tabulate: "has_key (map (\<lambda>k. (k, f k)) ks) k \<longleftrightarrow> k \<in> set ks"
  by (auto simp: has_key_def comp_def)

lemma finish_passthrough_keeps:
  assumes "map fst parsed = shapeKeys"
      and "has_key kvs k" and "k \<notin> set shapeKeys"
      and "k \<noteq> ''__proto__''" and "get_key kvs k \<noteq> JUndefined"
  shows "\<exists>out. finish_object Passthrough shapeKeys kvs parsed = Inr (JObj out)
               \<and> has_key out k \<and> get_key out k = get_key kvs k"
proof -
  let ?known = "mergeObjectSync (map (\<lambda>kr. (fst kr, snd kr, has_key kvs (fst kr))) parsed)"
  let ?keep = "filter (\<lambda>k. k \<noteq> ''__proto__'' \<and> get_key kvs k \<noteq> JUndefined)
                 (filter (\<lambda>k. k \<notin> set shapeKeys) (own_keys kvs))"
  let ?extra = "map (\<lambda>k. (k, get_key kvs k)) ?keep"
  have fin: "finish_object Passthrough shapeKeys kvs parsed = Inr (JObj (?known @ ?extra))"
    by (simp add: finish_object_def Let_def mergeObjectSync_append mergeObjectSync_extra)
  have "set (map fst ?known) \<subseteq> set (map fst parsed)"
    using mergeObjectSync_keys [of "map (\<lambda>kr. (fst kr, snd kr, has_key kvs (fst kr))) parsed"]
    by (simp add: comp_def)
  with assms(1,3) have other: "k \<notin> set (map fst ?known)" by blast
  from assms(2-5) have mem: "k \<in> set ?keep"
    by (simp add: has_key_def own_keys_def)
  from other mem have "has_key (?known @ ?extra) k \<and> get_key (?known @ ?extra) k = get_key kvs k"
    by (simp add: get_key_append_other has_key_append_other get_key_tabulate has_key_tabulate
          del: set_filter filter_filter)
  with fin show ?thesis by blast
qed

lemma parse_passthrough_succeeds:
  assumes "parse (ZObject shape Passthrough)
             (JObj (filter (\<lambda>kv. fst kv \<in> set (map fst shape)) kvs)) = Inr r0"
  shows "\<exists>r. parse (ZObject shape Passthrough) (JObj kvs) = Inr r"
proof -
  let ?kvs' = "filter (\<lambda>kv. fst kv \<in> set (map fst shape)) kvs"
  have "\<And>k. k \<in> set (map fst shape) \<Longrightarrow> get_key kvs k = get_key ?kvs' k"
    using get_key_filter [where P = "\<lambda>k. k \<in> set (map fst shape)"] by simp
  then have eq: "map (\<lambda>ks. tag_field (fst ks) (parse (snd ks) (get_key kvs (fst ks)))) shape
       = map (\<lambda>ks. tag_field (fst ks) (parse (snd ks) (get_key ?kvs' (fst ks)))) shape"
    by (rule parse_object_fields_cong)
  from assms obtain parsed where
    "sequence (map (\<lambda>ks. tag_field (fst ks) (parse (snd ks) (get_key ?kvs' (fst ks)))) shape) = Inr parsed"
    by (auto split: sum.splits)
  then have "parse (ZObject shape Passthrough) (JObj kvs)
               = finish_object Passthrough (map fst shape) kvs parsed"
    by (simp only: parse.simps jsval.case eq sum.case)
  then show ?thesis
    by (simp add: finish_object_def Let_def)
qed

text \<open>
  C6, as amended. An object with a key outside the declared fields is rejected by a strict
  object schema, whatever its shape, so by each request schema. A passthrough object
  schema accepts an object with undeclared keys whenever it accepts the object with those
  keys removed, and every undeclared key of the input other than \<open>__proto__\<close>, with a value
  other than \<open>undefined\<close> (as every key of a JSON response has), is then a key of the parsed
  result with the input's value.
\<close>

theorem strict_rejects_passthrough_keeps_other_keys:
  "(has_key kvs k \<and> k \<notin> set (map fst reqShape)
      \<longrightarrow> parse (ZObject reqShape Strict) (JObj kvs) = Inl ZodError)
   \<and> ((\<exists>r0. parse (ZObject respShape Passthrough)
               (JObj (filter (\<lambda>kv. fst kv \<in> set (map fst respShape)) kvs)) = Inr r0)
      \<longrightarrow> (\<exists>out. parse (ZObject respShape Passthrough) (JObj kvs) = Inr (JObj out)
            \<and> (\<forall>k. has_key kvs k \<and> k \<notin> set (map fst respShape)
                      \<and> k \<noteq> ''__proto__'' \<and> get_key kvs k \<noteq> JUndefined
                  \<longrightarrow> has_key out k \<and> get_key out k = get_key kvs k)))"
proof (intro conjI impI)
  assume "has_key kvs k \<and> k \<notin> set (map fst reqShape)"
  then show "parse (ZObject reqShape Strict) (JObj kvs) = Inl ZodError"
    by (intro parse_strict_unknown_key [of kvs k]) simp_all
next
  assume "\<exists>r0. parse (ZObject respShape Passthrough)
               (JObj (filter (\<lambda>kv. fst kv \<in> set (map fst respShape)) kvs)) = Inr r0"
  then obtain r where r: "parse (ZObject respShape Passthrough) (JObj kvs) = Inr r"
    using parse_passthrough_succeeds by blast
  then obtain parsed where
    seq: "sequence (map (\<lambda>ks. tag_field (fst ks) (parse (snd ks) (get_key kvs (fst ks)))) respShape)
            = Inr parsed"
    and fin: "finish_object Passthrough (map fst respShape) kvs parsed = Inr r"
    by (auto split: sum.splits)
  from seq have keys: "map fst parsed = map fst respShape"
    by (rule sequence_shape_keys)
  from fin obtain out where out: "r = JObj out"
    by (auto simp: finish_object_def Let_def)
  have "has_key out k \<and> get_key out k = get_key kvs k"
    if "has_key kvs k \<and> k \<notin> set (map fst respShape)
          \<and> k \<noteq> ''__proto__'' \<and> get_key kvs k \<noteq> JUndefined" for k
    using finish_passthrough_keeps [OF keys, of kvs k] that fin out by auto
  with r out show "\<exists>out. parse (ZObject respShape Passthrough) (JObj kvs) = Inr (JObj out)
            \<and> (\<forall>k. has_key kvs k \<and> k \<notin> set (map fst respShape)
                      \<and> k \<noteq> ''__proto__'' \<and> get_key kvs k \<noteq> JUndefined
                  \<longrightarrow> has_key out k \<and> get_key out k = get_key kvs k)"
    by blast
qed

theorem strict_rejects_passthrough_keeps_other_keys_witness:
  "parse SessionStartRequestSchema (JObj [(''unknown_field'', JBool True)]) = Inl ZodError
   \<and> (\<exists>out. parse SessionResponseSchema (JObj future_response) = Inr (JObj out)
          \<and> has_key out ''some_future_field''
          \<and> get_key out ''some_future_field'' = JStr ''value'')"
proof -
  have req: "has_key [(''unknown_field'', JBool True)] ''unknown_field''
             \<and> ''unknown_field'' \<notin> set (map fst SessionStartRequestShape)"
    by code_simp
  have "parse (ZObject SessionResponseShape Passthrough)
          (JObj (filter (\<lambda>kv. fst kv \<in> set (map fst SessionResponseShape)) future_response))
        = Inr MOCK_SESSION_RESPONSE"
    by code_simp
  then have resp: "\<exists>r0. parse (ZObject SessionResponseShape Passthrough)
          (JObj (filter (\<lambda>kv. fst kv \<in> set (map fst SessionResponseShape)) future_response))
        = Inr r0"
    by blast
  have key: "has_key future_response ''some_future_field''
             \<and> ''some_future_field'' \<notin> set (map fst SessionResponseShape)
             \<and> ''some_future_field'' \<noteq> ''__proto__''
             \<and> get_key future_response ''some_future_field'' \<noteq> JUndefined"
    by code_simp
  have val: "get_key future_response ''some_future_field'' = JStr ''value''"
    by code_simp
  from strict_rejects_passthrough_keeps_other_keys
         [of "[(''unknown_field'', JBool True)]" "''unknown_field''" SessionStartRequestShape
             SessionResponseShape]
       strict_rejects_passthrough_keeps_other_keys
         [of future_response "''unknown_field''" SessionStartRequestShape SessionResponseShape]
       req resp key val
  show ?thesis
    unfolding SessionStartRequestSchema_def SessionResponseSchema_def
    by (metis)
qed

text \<open>
  C6, as stated, fails at the key \<open>__proto__\<close>: the session response schema accepts a
  response that carries it, and the parsed result does not have the key.
\<close>

theorem proto_key_is_dropped:
  "has_key proto_response ''__proto__''
   \<and> parse SessionResponseSchema (JObj proto_response) = Inr MOCK_SESSION_RESPONSE
   \<and> \<not> has_key (entries MOCK_SESSION_RESPONSE) ''__proto__''"
  by code_simp

subsection \<open>Requests\<close>

lemmas request_eval =
  rawRequest_def request_def fetch_init_def fetch_with_timer_def setTimeout_def clearTimeout_def
  timer_delay_def init_body_def present_def
  ok_def response_json_def text_after_json_def read_error_body_def is_abort_def Let_def

lemmas url_eval =
  buildUrl_def strip_trailing_def strip_leading_def strip_both_def is_slash_def

lemmas fixture_defs =
  mock_platform_def json_response_def text_response_def test_client_def empty_world_def
  endpoint_def

lemma init_body_no_body: "body ep = None \<Longrightarrow> init_body ep = Inr None"
  by (simp add: init_body_def present_def)

lemma init_body_GET_DELETE:
  "method' ep = GET \<or> method' ep = DELETE \<Longrightarrow> init_body ep = Inr None"
  by (auto simp: init_body_def)

lemma rawRequest_invalid_url:
  "\<not> url_valid pf (buildUrl c (path ep)) \<Longrightarrow>
     rawRequest pf c ep w = (Inl (TypeError ''Invalid URL''), w)"
  by (simp add: rawRequest_def)

lemma rawRequest_unserialisable:
  "url_valid pf (buildUrl c (path ep)) \<Longrightarrow> init_body ep = Inl e \<Longrightarrow>
     rawRequest pf c ep w
       = (Inl e, w\<lparr>pending := (next_timer w, timer_delay (timeoutMs c)) # pending w,
                    next_timer := Suc (next_timer w)\<rparr>)"
  by (simp add: rawRequest_def setTimeout_def)

lemma rawRequest_fetched:
  "url_valid pf (buildUrl c (path ep)) \<Longrightarrow> init_body ep = Inr b \<Longrightarrow>
     fetched (snd (rawRequest pf c ep w)) = fetched w @ [fetch_init pf c ep b]"
  by (auto simp: rawRequest_def setTimeout_def fetch_with_timer_def clearTimeout_def Let_def
           split: prod.splits settled.splits sum.splits if_splits)

lemma rawRequest_pending:
  "url_valid pf (buildUrl c (path ep)) \<Longrightarrow> init_body ep = Inr b \<Longrightarrow>
     pending (snd (rawRequest pf c ep w)) = filter (\<lambda>td. fst td \<noteq> next_timer w) (pending w)"
  by (auto simp: rawRequest_def setTimeout_def fetch_with_timer_def clearTimeout_def Let_def
           split: prod.splits settled.splits sum.splits if_splits)

lemma rawRequest_timeout:
  assumes "url_valid pf (buildUrl c (path ep))" and "init_body ep = Inr b"
      and "fetch pf (fetched w) (fetch_init pf c ep b) = (delay, res)"
      and "timer_delay (timeoutMs c) \<le> delay"
  shows "fst (rawRequest pf c ep w) = Inl (NotteAPIError 0 (JStr ''Request timed out'') (path ep))"
  using assms
  by (simp add: rawRequest_def setTimeout_def fetch_with_timer_def clearTimeout_def Let_def
        is_abort_def)

lemma rawRequest_rejected:
  assumes "url_valid pf (buildUrl c (path ep))" and "init_body ep = Inr b"
      and "fetch pf (fetched w) (fetch_init pf c ep b) = (delay, Rejects err)"
      and "delay < timer_delay (timeoutMs c)" and "\<not> is_abort err"
  shows "fst (rawRequest pf c ep w) = Inl err"
  using assms
  by (simp add: rawRequest_def setTimeout_def fetch_with_timer_def clearTimeout_def Let_def)

lemma rawRequest_resolved:
  assumes "url_valid pf (buildUrl c (path ep))" and "init_body ep = Inr b"
      and "fetch pf (fetched w) (fetch_init pf c ep b) = (delay, Resolves r)"
      and "delay < timer_delay (timeoutMs c)"
  shows "fst (rawRequest pf c ep w) =
           (if ok r then response_json r
            else case read_error_body r of
                   Inl e \<Rightarrow> Inl e
                 | Inr b \<Rightarrow> Inl (NotteAPIError (status r) b (path ep)))"
  using assms
  by (simp add: rawRequest_def setTimeout_def fetch_with_timer_def clearTimeout_def Let_def
           split: sum.splits)

lemma timed_out_message:
  "NotteAPIError 0 (JStr ''Request timed out'') p
     = APIError (''Request timed out ('' @ p @ '')'') 0 (JStr ''Request timed out'') p"
  by (simp add: NotteAPIError_def api_message_def)

text \<open>
  Once the body is serialised, the request behaves as intended: a transport that has not
  settled when the timer is due gives the API error with status code 0 and the message
  \<open>Request timed out\<close>, tagged with the path; a transport that rejects earlier with any
  other error gives that error unchanged; and the timer of the request is not pending
  afterwards.
\<close>

lemma rawRequest_timeout_and_timer:
  assumes "url_valid pf (buildUrl c (path ep))" and "init_body ep = Inr b"
      and "fetch pf (fetched w) (fetch_init pf c ep b) = (delay, res)"
  shows "(timer_delay (timeoutMs c) \<le> delay \<longrightarrow>
            fst (rawRequest pf c ep w)
              = Inl (APIError (''Request timed out ('' @ path ep @ '')'') 0
                       (JStr ''Request timed out'') (path ep)))
       \<and> (\<forall>err. delay < timer_delay (timeoutMs c) \<and> res = Rejects err \<and> \<not> is_abort err \<longrightarrow>
            fst (rawRequest pf c ep w) = Inl err)
       \<and> next_timer w \<notin> fst ` set (pending (snd (rawRequest pf c ep w)))"
  using assms rawRequest_timeout [OF assms] rawRequest_rejected [OF assms(1,2)]
  by (auto simp: timed_out_message rawRequest_pending)

lemma parse_bigint_action: "parse ExecutionRequestSchema bigint_action = Inr bigint_action"
  by code_simp

lemma stringify_bigint_action:
  "JSON_stringify bigint_action = Inl (TypeError ''Do not know how to serialize a BigInt'')"
  "truthy bigint_action"
  by (simp_all add: bigint_action_def tag_field_def)

text \<open>
  C8. The timer is meant to be cleared on every exit path. An \<open>execute\<close> whose action
  carries a \<open>BigInt\<close> selector passes validation and then fails in \<open>JSON.stringify\<close>,
  after the timer was set and before the \<open>try\<close> block: the call rejects with the
  \<open>TypeError\<close>, no request is issued, and the timer is still pending.
\<close>

theorem unserialisable_body_leaves_timer_pending:
  "fst (SessionsClient_execute start_stop_platform test_client (JStr ''sess-456'') bigint_action
          empty_world)
     = Inl (TypeError ''Do not know how to serialize a BigInt'')
   \<and> fetched (snd (SessionsClient_execute start_stop_platform test_client (JStr ''sess-456'')
                     bigint_action empty_world)) = []
   \<and> pending (snd (SessionsClient_execute start_stop_platform test_client (JStr ''sess-456'')
                     bigint_action empty_world)) = [(0, 60000)]"
  by (simp add: SessionsClient_execute_def parse_bigint_action withBody_def request_eval
        fixture_defs start_stop_platform_def stringify_bigint_action)

subsection \<open>List responses\<close>

lemma sequence_map_iff:
  "sequence (map f xs) = Inr ys \<longleftrightarrow>
     length ys = length xs \<and> (\<forall>i<length xs. f (xs ! i) = Inr (ys ! i))"
  by (auto simp: sequence_Inr_iff list_eq_iff_nth_eq)

lemma has_key_map_of: "has_key kvs k \<longleftrightarrow> map_of kvs k \<noteq> None"
  by (simp add: has_key_def map_of_eq_None_iff)

lemma malformed_list_message:
  "NotteAPIError 0 (JStr ''Expected array or { items: [...] } response'') p
     = APIError (''Expected array or { items: [...] } response ('' @ p @ '')'') 0
         (JStr ''Expected array or { items: [...] } response'') p"
  by (simp add: NotteAPIError_def api_message_def)

text \<open>
  C5. When the raw JSON handed to \<open>requestList\<close> is an array, or an object whose \<open>items\<close>
  field is an array, \<open>requestList\<close> returns a list exactly when that list holds, position
  by position, the validated elements of the array (so a returned list keeps the order and
  the length); for any other raw value it raises the API error with status code 0 whose
  message reports the expected shape.
\<close>

theorem requestList_shapes:
  assumes "rawRequest pf c ep w = (Inr raw, w')"
  shows "(\<forall>xs ys. raw = JArr xs \<or> (\<exists>kvs. raw = JObj kvs \<and> get_key kvs ''items'' = JArr xs) \<longrightarrow>
            (fst (requestList pf c ep w) = Inr ys \<longleftrightarrow>
               length ys = length xs
               \<and> (\<forall>i<length xs. parse (responseSchema ep) (xs ! i) = Inr (ys ! i))))
       \<and> ((\<forall>xs. raw \<noteq> JArr xs) \<and> (\<forall>kvs xs. raw = JObj kvs \<longrightarrow> get_key kvs ''items'' \<noteq> JArr xs) \<longrightarrow>
            fst (requestList pf c ep w)
              = Inl (APIError (''Expected array or { items: [...] } response ('' @ path ep @ '')'') 0
                       (JStr ''Expected array or { items: [...] } response'') (path ep)))"
proof (intro conjI allI impI)
  fix xs ys
  assume "raw = JArr xs \<or> (\<exists>kvs. raw = JObj kvs \<and> get_key kvs ''items'' = JArr xs)"
  then have "fst (requestList pf c ep w) = sequence (map (parse (responseSchema ep)) xs)"
    using assms by (auto simp: requestList_def get_key_def has_key_map_of split: option.splits)
  then show "fst (requestList pf c ep w) = Inr ys \<longleftrightarrow>
               length ys = length xs
               \<and> (\<forall>i<length xs. parse (responseSchema ep) (xs ! i) = Inr (ys ! i))"
    by (simp add: sequence_map_iff)
next
  assume "(\<forall>xs. raw \<noteq> JArr xs) \<and> (\<forall>kvs xs. raw = JObj kvs \<longrightarrow> get_key kvs ''items'' \<noteq> JArr xs)"
  then show "fst (requestList pf c ep w)
              = Inl (APIError (''Expected array or { items: [...] } response ('' @ path ep @ '')'') 0
                       (JStr ''Expected array or { items: [...] } response'') (path ep))"
    using assms
    by (auto simp: requestList_def malformed_list_message split: jsval.splits)
qed

lemma rawRequest_pair:
  "fst (rawRequest pf c ep w) = Inr raw \<Longrightarrow> rawRequest pf c ep w = (Inr raw, snd (rawRequest pf c ep w))"
  by (metis prod.collapse)

theorem requestList_shapes_witness:
  "fst (requestList (mock_platform [json_response 200 (JArr [JObj [(''id'', JNum 1)], JObj [(''id'', JNum 2)]])])
          test_client list_endpoint empty_world)
     = Inr [JObj [(''id'', JNum 1)], JObj [(''id'', JNum 2)]]
   \<and> fst (requestList (mock_platform [json_response 200 (JObj [(''items'', JArr [JObj [(''id'', JNum 3)]]), (''page'', JNum 1)])])
          test_client list_endpoint empty_world)
     = Inr [JObj [(''id'', JNum 3)]]
   \<and> fst (requestList (mock_platform [json_response 200 (JObj [(''page'', JNum 1)])])
          test_client list_endpoint empty_world)
     = Inl (APIError ''Expected array or { items: [...] } response (list)'' 0
              (JStr ''Expected array or { items: [...] } response'') ''list'')"
proof -
  let ?a = "JArr [JObj [(''id'', JNum 1)], JObj [(''id'', JNum 2)]]"
  let ?b = "JObj [(''items'', JArr [JObj [(''id'', JNum 3)]]), (''page'', JNum 1)]"
  let ?c = "JObj [(''page'', JNum 1)]"
  have "fst (rawRequest (mock_platform [json_response 200 ?a]) test_client list_endpoint empty_world) = Inr ?a"
    by (simp add: request_eval fixture_defs list_endpoint_def)
  note a = requestList_shapes [OF rawRequest_pair [OF this]]
  have "fst (rawRequest (mock_platform [json_response 200 ?b]) test_client list_endpoint empty_world) = Inr ?b"
    by (simp add: request_eval fixture_defs list_endpoint_def)
  note b = requestList_shapes [OF rawRequest_pair [OF this]]
  have "fst (rawRequest (mock_platform [json_response 200 ?c]) test_client list_endpoint empty_world) = Inr ?c"
    by (simp add: request_eval fixture_defs list_endpoint_def)
  note c = requestList_shapes [OF rawRequest_pair [OF this]]
  have p: "parse (responseSchema list_endpoint) (JObj [(''id'', JNum n)]) = Inr (JObj [(''id'', JNum n)])" for n
    by (simp add: list_endpoint_def endpoint_def id_schema_def tag_field_def finish_object_def
          mergeObjectSync_def own_keys_def get_key_def has_key_def)
  have 1: "fst (requestList (mock_platform [json_response 200 ?a]) test_client list_endpoint empty_world)
             = Inr [JObj [(''id'', JNum 1)], JObj [(''id'', JNum 2)]]"
    using a [THEN conjunct1, rule_format,
             of "[JObj [(''id'', JNum 1)], JObj [(''id'', JNum 2)]]"
                "[JObj [(''id'', JNum 1)], JObj [(''id'', JNum 2)]]"]
    by (simp add: All_less_Suc p)
  have 2: "fst (requestList (mock_platform [json_response 200 ?b]) test_client list_endpoint empty_world)
             = Inr [JObj [(''id'', JNum 3)]]"
    using b [THEN conjunct1, rule_format,
             of "[JObj [(''id'', JNum 3)]]" "[JObj [(''id'', JNum 3)]]"]
    by (simp add: p get_key_def)
  have 3: "fst (requestList (mock_platform [json_response 200 ?c]) test_client list_endpoint empty_world)
     = Inl (APIError ''Expected array or { items: [...] } response (list)'' 0
              (JStr ''Expected array or { items: [...] } response'') ''list'')"
    using c [THEN conjunct2]
    by (simp add: get_key_def list_endpoint_def endpoint_def)
  from 1 2 3 show ?thesis by blast
qed

subsection \<open>API errors\<close>

lemma NotteAPIError_fields:
  "NotteAPIError st b p = APIError (api_message st b @ '' ('' @ p @ '')'') st b p"
  by (simp add: NotteAPIError_def)

lemma api_message_detail:
  "has_key kvs ''detail'' \<Longrightarrow> api_message st (JObj kvs) = String_js (get_key kvs ''detail'')"
  by (simp add: api_message_def)

lemma api_message_message:
  "\<not> has_key kvs ''detail'' \<Longrightarrow> has_key kvs ''message'' \<Longrightarrow>
     api_message st (JObj kvs) = String_js (get_key kvs ''message'')"
  by (simp add: api_message_def)

lemma api_message_string:
  "s \<noteq> [] \<Longrightarrow> api_message st (JStr s) = s"
  by (simp add: api_message_def)

lemma api_message_generic:
  "(\<forall>kvs. b = JObj kvs \<longrightarrow> \<not> has_key kvs ''detail'' \<and> \<not> has_key kvs ''message'') \<Longrightarrow>
   (\<forall>s. b = JStr s \<longrightarrow> s = []) \<Longrightarrow>
     api_message st b = ''API request failed with status '' @ show_nat st"
  by (cases b) (auto simp: api_message_def)

lemma rawRequest_json_error_body:
  assumes "url_valid pf (buildUrl c (path ep))" and "init_body ep = Inr ib"
      and "fetch pf (fetched w) (fetch_init pf c ep ib) = (delay, Resolves r)"
      and "delay < timer_delay (timeoutMs c)" and "\<not> ok r" and "content r = JsonBody b"
  shows "fst (rawRequest pf c ep w) = Inl (NotteAPIError (status r) b (path ep))"
  using assms rawRequest_resolved [OF assms(1-4)]
  by (simp add: read_error_body_def response_json_def)

lemma rawRequest_text_error_body:
  assumes "url_valid pf (buildUrl c (path ep))" and "init_body ep = Inr ib"
      and "fetch pf (fetched w) (fetch_init pf c ep ib) = (delay, Resolves r)"
      and "delay < timer_delay (timeoutMs c)" and "\<not> ok r" and "content r = TextBody t"
  shows "fst (rawRequest pf c ep w) = Inl (TypeError ''Body is unusable: Body has already been read'')"
  using assms rawRequest_resolved [OF assms(1-4)]
  by (simp add: read_error_body_def response_json_def text_after_json_def)

lemma not_found_example:
  "fst (request (mock_platform [json_response 404 (JObj [(''detail'', JStr ''Not found'')])])
          test_client (endpoint ''missing'' GET (ZObject [] Strip)) empty_world)
     = Inl (APIError ''Not found (missing)'' 404 (JObj [(''detail'', JStr ''Not found'')]) ''missing'')"
  by (simp add: request_eval fixture_defs NotteAPIError_def api_message_def has_key_def get_key_def)

text \<open>
  C7. A non-success response is meant to raise an API error that carries the status code
  and the parsed or raw body. A 503 response whose body is the text
  \<open>Service Unavailable\<close> does not: \<open>response.json()\<close> rejects after reading the body, the
  fallback \<open>response.text()\<close> then rejects because the body was already read, and that
  \<open>TypeError\<close> is what the caller gets, without status code, body or path.
\<close>

theorem text_error_body_raises_TypeError:
  "fst (request (mock_platform [text_response 503 ''Service Unavailable''])
          test_client (endpoint ''missing'' GET (ZObject [] Strip)) empty_world)
     = Inl (TypeError ''Body is unusable: Body has already been read'')"
  by (simp add: request_eval fixture_defs)

subsection \<open>Cookie requests\<close>

lemma sequence_ok_iff:
  "(\<exists>ys. sequence (map f xs) = Inr ys) \<longleftrightarrow> (\<forall>x\<in>set xs. \<exists>y. f x = Inr y)"
proof (induction xs)
  case Nil
  then show ?case by simp
next
  case (Cons x xs)
  show ?case
  proof (cases "f x")
    case (Inl e)
    then show ?thesis by auto
  next
    case (Inr y)
    with Cons show ?thesis by (auto split: sum.splits)
  qed
qed

lemma no_extra_keys_iff:
  "filter (\<lambda>k. k \<notin> set ks) (own_keys kvs) = [] \<longleftrightarrow> (\<forall>k. has_key kvs k \<longrightarrow> k \<in> set ks)"
  by (auto simp: filter_empty_conv has_key_def own_keys_def)

lemma request_fetched:
  "fetched (snd (request pf c ep w)) = fetched (snd (rawRequest pf c ep w))"
  by (simp add: request_def split: prod.splits sum.splits)

lemma setCookies_sends_unvalidated:
  assumes "url_valid pf (buildUrl c (String_js sid @ ''/cookies''))"
      and "JSON_stringify (JObj [(''cookies'', cookies)]) = Inr j"
  shows "fetched (snd (SessionsClient_setCookies pf c sid cookies w))
           = fetched w @ [fetch_init pf c
               (withBody (endpoint (String_js sid @ ''/cookies'') POST SetCookiesResponseSchema)
                  (JObj [(''cookies'', cookies)])) (Some j)]"
proof -
  let ?ep = "withBody (endpoint (String_js sid @ ''/cookies'') POST SetCookiesResponseSchema)
               (JObj [(''cookies'', cookies)])"
  from assms(2) have "init_body ?ep = Inr (Some j)"
    by (simp add: init_body_def present_def withBody_def endpoint_def)
  moreover from assms(1) have "url_valid pf (buildUrl c (path ?ep))"
    by (simp add: withBody_def endpoint_def)
  ultimately have "fetched (snd (rawRequest pf c ?ep w)) = fetched w @ [fetch_init pf c ?ep (Some j)]"
    by (rule rawRequest_fetched [rotated])
  then show ?thesis
    by (simp add: SessionsClient_setCookies_def request_fetched)
qed

text \<open>
  C9, as amended. \<open>SetCookiesRequestSchema\<close> accepts a value exactly when it is an object
  whose only key is \<open>cookies\<close>, bound to an array, possibly empty, each of whose elements is
  accepted by \<open>CookieSchema\<close>; so a request with an element that fails the cookie shape is
  rejected by the schema, and a request with an empty array is accepted.
\<close>

theorem SetCookiesRequest_accepts_iff:
  "(\<exists>r. parse SetCookiesRequestSchema v = Inr r) \<longleftrightarrow>
     (\<exists>kvs cs. v = JObj kvs
        \<and> (\<forall>k. has_key kvs k \<longrightarrow> k = ''cookies'')
        \<and> get_key kvs ''cookies'' = JArr cs
        \<and> (\<forall>c\<in>set cs. \<exists>y. parse CookieSchema c = Inr y))"
proof (cases v)
  case (JObj kvs)
  show ?thesis
  proof (cases "get_key kvs ''cookies''")
    case (JArr cs)
    have *: "(\<exists>ys. sequence (map (parse CookieSchema) cs) = Inr ys)
               \<longleftrightarrow> (\<forall>c\<in>set cs. \<exists>y. parse CookieSchema c = Inr y)"
      by (rule sequence_ok_iff)
    have **: "filter (\<lambda>k. k \<notin> set [''cookies'']) (own_keys kvs) = []
                \<longleftrightarrow> (\<forall>k. has_key kvs k \<longrightarrow> k = ''cookies'')"
      using no_extra_keys_iff [of "[''cookies'']" kvs] by simp
    show ?thesis
    proof (cases "sequence (map (parse CookieSchema) cs)")
      case (Inl e)
      with * have "\<not> (\<forall>c\<in>set cs. \<exists>y. parse CookieSchema c = Inr y)" by simp
      with Inl JObj JArr show ?thesis
        by (auto simp: SetCookiesRequestSchema_def tag_field_def)
    next
      case (Inr ys)
      with * have "\<forall>c\<in>set cs. \<exists>y. parse CookieSchema c = Inr y" by blast
      with Inr JObj JArr ** show ?thesis
        by (auto simp: SetCookiesRequestSchema_def tag_field_def finish_object_def)
    qed
  qed (use JObj in \<open>auto simp: SetCookiesRequestSchema_def tag_field_def\<close>)
qed (auto simp: SetCookiesRequestSchema_def)

theorem SetCookiesRequest_accepts_iff_witness:
  "(\<exists>r. parse SetCookiesRequestSchema (JObj [(''cookies'', JArr [])]) = Inr r)
   \<and> \<not> (\<exists>r. parse SetCookiesRequestSchema (JObj [(''cookies'', JArr [JObj [(''name'', JStr ''x'')]])]) = Inr r)"
proof -
  have bad: "parse CookieSchema (JObj [(''name'', JStr ''x'')]) = Inl ZodError"
    by code_simp
  have k: "has_key [(''cookies'', v)] k \<longrightarrow> k = ''cookies''" for v k
    by (simp add: has_key_def)
  have g: "get_key [(''cookies'', v)] ''cookies'' = v" for v
    by (simp add: get_key_def)
  show ?thesis
    using SetCookiesRequest_accepts_iff [of "JObj [(''cookies'', JArr [])]"]
      SetCookiesRequest_accepts_iff [of "JObj [(''cookies'', JArr [JObj [(''name'', JStr ''x'')]])]"]
      bad k g
    by auto
qed

text \<open>
  C9, as stated, fails: the schema accepts an empty \<open>cookies\<close> array, and \<open>setCookies\<close>
  called with an empty array issues the request.
\<close>

theorem empty_cookies_accepted_and_sent:
  "parse SetCookiesRequestSchema (JObj [(''cookies'', JArr [])]) = Inr (JObj [(''cookies'', JArr [])])
   \<and> map req_url (fetched (snd (SessionsClient_setCookies
            (mock_platform [json_response 200 (JObj [(''success'', JBool True), (''message'', JStr ''Cookies set'')])])
            test_client (JStr ''sess-123'') (JArr []) empty_world)))
       = [''https://api.notte.cc/sessions/sess-123/cookies'']"
proof -
  have "parse SetCookiesRequestSchema (JObj [(''cookies'', JArr [])]) = Inr (JObj [(''cookies'', JArr [])])"
    by code_simp
  moreover have "buildUrl test_client ''sess-123/cookies'' = ''https://api.notte.cc/sessions/sess-123/cookies''"
    by (simp add: url_eval test_client_def)
  moreover have "JSON_stringify (JObj [(''cookies'', JArr [])]) = Inr (JObj [(''cookies'', JArr [])])"
    by (simp add: tag_field_def)
  ultimately show ?thesis
    by (simp add: setCookies_sends_unvalidated mock_platform_def fetch_init_def withBody_def
          endpoint_def empty_world_def)
qed

subsection \<open>The wrapper's state\<close>

lemma forward_state: "forward f s w = (r, s', w') \<Longrightarrow> s' = s"
  by (auto simp: forward_def split: sum.splits prod.splits)

lemma start_failure_keeps_state:
  "RemoteSession_start pf s w = (Inl e, s', w') \<Longrightarrow> s' = s"
  by (auto simp: RemoteSession_start_def split: if_splits prod.splits sum.splits)

lemma stop_failure_keeps_state:
  "RemoteSession_stop pf s w = (Inl e, s', w') \<Longrightarrow> s' = s"
  by (auto simp: RemoteSession_stop_def split: if_splits prod.splits sum.splits)

lemma exec_op_sessionId:
  assumes "truthy (priv_sessionId s)" and "exec_op pf c s w = (r, s', w')"
  shows "priv_sessionId s' = priv_sessionId s"
proof (cases c)
  case CallStart
  with assms show ?thesis by (simp add: RemoteSession_start_def)
next
  case CallStop
  with assms show ?thesis
    by (auto simp: RemoteSession_stop_def split: if_splits prod.splits sum.splits)
qed (use assms in \<open>auto simp: RemoteSession_status_def RemoteSession_scrape_def
       RemoteSession_observe_def RemoteSession_execute_def RemoteSession_setCookies_def
       RemoteSession_getCookies_def dest: forward_state\<close>)

lemma run_work_sessionId:
  "truthy (priv_sessionId s) \<Longrightarrow> run_work pf wk s w = (res, s', w')
     \<Longrightarrow> priv_sessionId s' = priv_sessionId s"
proof (induction wk arbitrary: s w)
  case (Await c k)
  obtain r s1 w1 where step: "exec_op pf c s w = (r, s1, w1)"
    by (metis prod_cases3)
  with Await.prems have rest: "run_work pf (k r) s1 w1 = (res, s', w')" by simp
  from Await.prems(1) step have id: "priv_sessionId s1 = priv_sessionId s"
    by (rule exec_op_sessionId)
  with Await.prems(1) have "truthy (priv_sessionId s1)" by simp
  with Await.IH rest have "priv_sessionId s' = priv_sessionId s1"
    by (meson rangeI)
  with id show ?case by simp
qed simp_all

lemma exec_op_stopped:
  assumes "priv_stopped s" and "truthy (priv_sessionId s)" and "exec_op pf c s w = (r, s', w')"
  shows "s' = s"
proof (cases c)
  case CallStart
  with assms show ?thesis by (simp add: RemoteSession_start_def)
next
  case CallStop
  with assms show ?thesis by (simp add: RemoteSession_stop_def)
qed (use assms in \<open>auto simp: RemoteSession_status_def RemoteSession_scrape_def
       RemoteSession_observe_def RemoteSession_execute_def RemoteSession_setCookies_def
       RemoteSession_getCookies_def dest: forward_state\<close>)

lemma run_work_stopped:
  "priv_stopped s \<Longrightarrow> truthy (priv_sessionId s) \<Longrightarrow> run_work pf wk s w = (res, s', w')
     \<Longrightarrow> s' = s"
proof (induction wk arbitrary: s w)
  case (Await c k)
  obtain r s1 w1 where step: "exec_op pf c s w = (r, s1, w1)"
    by (metis prod_cases3)
  with Await.prems have rest: "run_work pf (k r) s1 w1 = (res, s', w')" by simp
  from Await.prems(1,2) step have "s1 = s" by (rule exec_op_stopped)
  with Await.IH Await.prems(1,2) rest show ?case
    by (meson rangeI)
qed simp_all

lemma request_ok_url:
  "request pf c ep w = (Inr r, w') \<Longrightarrow> url_valid pf (buildUrl c (path ep))"
  by (cases "url_valid pf (buildUrl c (path ep))")
     (auto simp: request_def rawRequest_invalid_url split: prod.splits sum.splits)

lemma request_world:
  "request pf c ep w = (r, w') \<Longrightarrow> w' = snd (rawRequest pf c ep w)"
  by (auto simp: request_def split: prod.splits sum.splits)

lemma first_stop:
  assumes "\<not> priv_stopped s" and "RemoteSession_stop pf s w = (Inr r, s1, w1)"
  shows "truthy (priv_sessionId s)"
    and "s1 = s\<lparr>priv_response := r, priv_stopped := True\<rparr>"
    and "fetched w1 = fetched w @ [stop_request pf s]"
proof -
  from assms show t: "truthy (priv_sessionId s)"
    by (auto simp: RemoteSession_stop_def split: if_splits)
  with assms have c: "SessionsClient_stop pf (client s) (priv_sessionId s) w = (Inr r, w1)"
    and s1: "s1 = s\<lparr>priv_response := r, priv_stopped := True\<rparr>"
    by (auto simp: RemoteSession_stop_def split: prod.splits sum.splits)
  from s1 show "s1 = s\<lparr>priv_response := r, priv_stopped := True\<rparr>" .
  let ?ep = "endpoint (String_js (priv_sessionId s) @ ''/stop'') DELETE SessionResponseSchema"
  from c have req: "request pf (client s) ?ep w = (Inr r, w1)"
    by (simp add: SessionsClient_stop_def)
  then have "url_valid pf (buildUrl (client s) (path ?ep))"
    by (rule request_ok_url)
  moreover have "init_body ?ep = Inr None"
    by (simp add: init_body_no_body endpoint_def)
  ultimately have "fetched (snd (rawRequest pf (client s) ?ep w))
                     = fetched w @ [fetch_init pf (client s) ?ep None]"
    by (rule rawRequest_fetched)
  with request_world [OF req] show "fetched w1 = fetched w @ [stop_request pf s]"
    by (simp add: stop_request_def)
qed

text \<open>
  C1. Let a wrapper that is not yet stopped be stopped successfully, with response \<open>r\<close>.
  That call issued exactly one request, the stop request. Every later \<open>stop()\<close>, straight
  away or after any further use of the wrapper, returns the same \<open>r\<close> and leaves the wrapper
  and the world as they are, so it issues no request.
\<close>

theorem stop_is_idempotent:
  assumes "\<not> priv_stopped s"
      and "RemoteSession_stop pf s w = (Inr r, s1, w1)"
  shows "fetched w1 = fetched w @ [stop_request pf s]
       \<and> RemoteSession_stop pf s1 w1 = (Inr r, s1, w1)
       \<and> (\<forall>wk res s2 w2. run_work pf wk s1 w1 = (res, s2, w2)
              \<longrightarrow> RemoteSession_stop pf s2 w2 = (Inr r, s2, w2))"
proof -
  note fs = first_stop [OF assms]
  from fs(1,2) have inv: "priv_stopped s1" "truthy (priv_sessionId s1)" "priv_response s1 = r"
    by simp_all
  then have again: "RemoteSession_stop pf s1 w' = (Inr r, s1, w')" for w'
    by (simp add: RemoteSession_stop_def)
  have "RemoteSession_stop pf s2 w2 = (Inr r, s2, w2)"
    if "run_work pf wk s1 w1 = (res, s2, w2)" for wk :: "'a work" and res s2 w2
  proof -
    from inv(1,2) that have "s2 = s1" by (rule run_work_stopped)
    with again show ?thesis by simp
  qed
  with fs(3) again show ?thesis by blast
qed

text \<open>
  C10. When \<open>start()\<close> on a fresh wrapper fails, the wrapper is unchanged: reading the
  identifier still throws, \<open>isStarted\<close> is false, the cached response is \<open>null\<close>; and a
  later \<open>start()\<close> is not refused: it calls the client again and, as a first start does,
  records the response and the identifier when the client succeeds.
\<close>

theorem failed_start_leaves_unstarted:
  assumes "RemoteSession_start pf (new_RemoteSession c opts) w = (Inl e, s', w')"
  shows "s' = new_RemoteSession c opts
       \<and> sessionId s' = Inl (Error ''Session has not been started. Call start() first.'')
       \<and> \<not> isStarted s'
       \<and> response_of s' = JNull
       \<and> (\<forall>w2. RemoteSession_start pf s' w2 =
             (case SessionsClient_start pf c opts w2 of
                (Inl e2, w3) \<Rightarrow> (Inl e2, s', w3)
              | (Inr r, w3) \<Rightarrow>
                  (Inr r, s'\<lparr>priv_response := r, priv_sessionId := get_prop r ''session_id''\<rparr>, w3)))"
proof -
  from assms have s': "s' = new_RemoteSession c opts"
    by (rule start_failure_keeps_state)
  show ?thesis
    unfolding s'
    by (auto simp: new_RemoteSession_def sessionId_def isStarted_def response_of_def
          RemoteSession_start_def split: prod.splits sum.splits)
qed

subsection \<open>Evaluating the fixtures\<close>

lemma parse_start_empty: "parse SessionStartRequestSchema (JObj []) = Inr (JObj [])"
  by code_simp

lemma parse_mock_session: "parse SessionResponseSchema MOCK_SESSION_RESPONSE = Inr MOCK_SESSION_RESPONSE"
  by code_simp

lemma parse_mock_stopped: "parse SessionResponseSchema MOCK_STOPPED_RESPONSE = Inr MOCK_STOPPED_RESPONSE"
  by code_simp

lemma mock_session_id: "get_prop MOCK_SESSION_RESPONSE ''session_id'' = JStr ''sess-456''"
  by (simp add: MOCK_SESSION_RESPONSE_def session_response_def get_key_def)

lemmas session_eval =
  RemoteSession_start_def RemoteSession_stop_def new_RemoteSession_def
  SessionsClient_start_def SessionsClient_stop_def parse_or_empty_def withBody_def

lemma start_on_mock:
  assumes "outcomes \<noteq> []" and "hd outcomes = json_response 200 MOCK_SESSION_RESPONSE"
  shows "\<exists>s0 w0. RemoteSession_start (mock_platform outcomes) (new_RemoteSession test_client (JObj []))
                    empty_world = (Inr MOCK_SESSION_RESPONSE, s0, w0)
               \<and> \<not> priv_stopped s0 \<and> priv_sessionId s0 = JStr ''sess-456''
               \<and> priv_response s0 = MOCK_SESSION_RESPONSE
               \<and> client s0 = test_client \<and> map req_method (fetched w0) = [POST]"
  using assms
  by (cases outcomes)
     (simp_all add: session_eval request_eval fixture_defs parse_start_empty parse_mock_session
        mock_session_id)

lemma stop_on_mock:
  assumes "client s0 = test_client" and "priv_sessionId s0 = JStr ''sess-456''"
      and "\<not> priv_stopped s0" and "length (fetched w0) = 1"
      and "length outcomes = 2" and "outcomes ! 1 = json_response 200 MOCK_STOPPED_RESPONSE"
  shows "\<exists>s1 w1. RemoteSession_stop (mock_platform outcomes) s0 w0 = (Inr MOCK_STOPPED_RESPONSE, s1, w1)"
  using assms
  by (simp add: session_eval request_eval fixture_defs parse_mock_stopped)

theorem stop_is_idempotent_witness:
  "(let (r0, s0, w0) = RemoteSession_start start_stop_platform
                         (new_RemoteSession test_client (JObj [])) empty_world;
        (r1, s1, w1) = RemoteSession_stop start_stop_platform s0 w0;
        (r2, s2, w2) = RemoteSession_stop start_stop_platform s1 w1
    in r1 = Inr MOCK_STOPPED_RESPONSE \<and> r2 = Inr MOCK_STOPPED_RESPONSE
       \<and> map req_method (fetched w2) = [POST, DELETE])"
proof -
  obtain s0 w0 where
    start: "RemoteSession_start start_stop_platform (new_RemoteSession test_client (JObj []))
              empty_world = (Inr MOCK_SESSION_RESPONSE, s0, w0)"
    and s0: "\<not> priv_stopped s0" "priv_sessionId s0 = JStr ''sess-456''" "client s0 = test_client"
    and w0: "map req_method (fetched w0) = [POST]"
    using start_on_mock [of "[json_response 200 MOCK_SESSION_RESPONSE, json_response 200 MOCK_STOPPED_RESPONSE]"]
    unfolding start_stop_platform_def by auto
  from w0 have len: "length (fetched w0) = 1"
    by (metis length_map length_Cons list.size(3) One_nat_def)
  obtain s1 w1 where
    stop: "RemoteSession_stop start_stop_platform s0 w0 = (Inr MOCK_STOPPED_RESPONSE, s1, w1)"
    using stop_on_mock [OF s0(3) s0(2) s0(1) len, of "[json_response 200 MOCK_SESSION_RESPONSE, json_response 200 MOCK_STOPPED_RESPONSE]"]
    unfolding start_stop_platform_def by auto
  from stop_is_idempotent [OF s0(1) stop]
  have log: "fetched w1 = fetched w0 @ [stop_request start_stop_platform s0]"
    and again: "RemoteSession_stop start_stop_platform s1 w1 = (Inr MOCK_STOPPED_RESPONSE, s1, w1)"
    by blast+
  from log w0 have "map req_method (fetched w1) = [POST, DELETE]"
    by (simp add: stop_request_def fetch_init_def endpoint_def)
  with start stop again show ?thesis by simp
qed

theorem failed_start_leaves_unstarted_witness:
  "(let (r1, s1, w1) = RemoteSession_start retry_platform
                         (new_RemoteSession test_client (JObj [])) empty_world
    in r1 = Inl (APIError ''Busy (start)'' 503 (JObj [(''detail'', JStr ''Busy'')]) ''start'')
       \<and> s1 = new_RemoteSession test_client (JObj [])
       \<and> \<not> isStarted s1
       \<and> fst (RemoteSession_start retry_platform s1 w1) = Inr MOCK_SESSION_RESPONSE)"
proof -
  have "\<exists>s1 w1. RemoteSession_start retry_platform (new_RemoteSession test_client (JObj []))
                   empty_world
                 = (Inl (APIError ''Busy (start)'' 503 (JObj [(''detail'', JStr ''Busy'')]) ''start''), s1, w1)
               \<and> length (fetched w1) = 1"
    by (simp add: retry_platform_def session_eval request_eval fixture_defs parse_start_empty
          NotteAPIError_def api_message_def has_key_def get_key_def)
  then obtain s1 w1 where
    first: "RemoteSession_start retry_platform (new_RemoteSession test_client (JObj []))
                   empty_world
                 = (Inl (APIError ''Busy (start)'' 503 (JObj [(''detail'', JStr ''Busy'')]) ''start''), s1, w1)"
    and len: "length (fetched w1) = 1"
    by blast
  note t = failed_start_leaves_unstarted [OF first]
  have "fst (SessionsClient_start retry_platform test_client (JObj []) w1) = Inr MOCK_SESSION_RESPONSE"
    using len
    by (simp add: retry_platform_def session_eval request_eval fixture_defs parse_start_empty
          parse_mock_session split: prod.splits)
  then obtain w3 where
    "SessionsClient_start retry_platform test_client (JObj []) w1 = (Inr MOCK_SESSION_RESPONSE, w3)"
    by (metis prod.collapse)
  moreover from t have "RemoteSession_start retry_platform s1 w1 =
             (case SessionsClient_start retry_platform test_client (JObj []) w1 of
                (Inl e2, w3) \<Rightarrow> (Inl e2, s1, w3)
              | (Inr r, w3) \<Rightarrow>
                  (Inr r, s1\<lparr>priv_response := r, priv_sessionId := get_prop r ''session_id''\<rparr>, w3))"
    by blast
  ultimately have again: "fst (RemoteSession_start retry_platform s1 w1) = Inr MOCK_SESSION_RESPONSE"
    by simp
  from t have same: "s1 = new_RemoteSession test_client (JObj [])" and unstarted: "\<not> isStarted s1"
    by blast+
  from first same unstarted again show ?thesis by auto
qed

subsection \<open>The session identifier\<close>

lemma parse_object_first_field:
  assumes "parse (ZObject ((k, s) # shape) uk) v = Inr r" and "k \<noteq> ''__proto__''"
  shows "\<exists>kvs out x. v = JObj kvs \<and> r = JObj out \<and> parse s (get_key kvs k) = Inr x
            \<and> (x \<noteq> JUndefined \<longrightarrow> get_key out k = x)"
proof -
  from assms obtain kvs where v: "v = JObj kvs"
    by (cases v) auto
  with assms obtain parsed where
    seq: "sequence (tag_field k (parse s (get_key kvs k))
            # map (\<lambda>ks. tag_field (fst ks) (parse (snd ks) (get_key kvs (fst ks)))) shape) = Inr parsed"
    and fin: "finish_object uk (k # map fst shape) kvs parsed = Inr r"
    by (auto split: sum.splits)
  from seq obtain x rest where x: "parse s (get_key kvs k) = Inr x" and parsed: "parsed = (k, x) # rest"
    by (cases "parse s (get_key kvs k)") (auto simp: tag_field_def split: sum.splits)
  from fin parsed assms(2)
  have "\<exists>out. r = JObj out \<and> (x \<noteq> JUndefined \<longrightarrow> get_key out k = x)"
    by (auto simp: finish_object_def mergeObjectSync_def Let_def get_key_def
             split: unknownKeys.splits if_splits)
  with v x show ?thesis by blast
qed

lemma request_ok_parse:
  "request pf c ep w = (Inr r, w') \<Longrightarrow> \<exists>raw. parse (responseSchema ep) raw = Inr r"
  by (auto simp: request_def split: prod.splits sum.splits)

lemma session_response_has_id:
  assumes "parse SessionResponseSchema raw = Inr r"
  shows "\<exists>sid. get_prop r ''session_id'' = JStr sid"
proof -
  from assms have "parse (ZObject ((''session_id'', ZString) # tl SessionResponseShape) Passthrough) raw = Inr r"
    by (simp add: SessionResponseSchema_def SessionResponseShape_def)
  then obtain kvs out x where
    "r = JObj out" "parse ZString (get_key kvs ''session_id'') = Inr x"
    "x \<noteq> JUndefined \<longrightarrow> get_key out ''session_id'' = x"
    using parse_object_first_field [of "''session_id''" ZString "tl SessionResponseShape" Passthrough raw r]
    by auto
  then show ?thesis
    by (cases "get_key kvs ''session_id''") auto
qed

lemma start_ok:
  assumes "RemoteSession_start pf s w = (Inr r, s1, w1)"
  shows "\<exists>sid. get_prop r ''session_id'' = JStr sid \<and> priv_sessionId s1 = JStr sid"
    and "priv_response s1 = r" and "priv_stopped s1 = priv_stopped s" and "client s1 = client s"
proof -
  from assms have c: "SessionsClient_start pf (client s) (options s) w = (Inr r, w1)"
    and s1: "s1 = s\<lparr>priv_response := r, priv_sessionId := get_prop r ''session_id''\<rparr>"
    by (auto simp: RemoteSession_start_def split: if_splits prod.splits sum.splits)
  from c obtain ep where "request pf (client s) ep w = (Inr r, w1)"
    and "responseSchema ep = SessionResponseSchema"
    by (auto simp: SessionsClient_start_def withBody_def endpoint_def split: sum.splits)
  then obtain raw where "parse SessionResponseSchema raw = Inr r"
    using request_ok_parse by metis
  then obtain sid where "get_prop r ''session_id'' = JStr sid"
    using session_response_has_id by blast
  with s1 show "\<exists>sid. get_prop r ''session_id'' = JStr sid \<and> priv_sessionId s1 = JStr sid"
    by simp
  from s1 show "priv_response s1 = r" "priv_stopped s1 = priv_stopped s" "client s1 = client s"
    by simp_all
qed

text \<open>
  C4, as amended. Reading the session identifier of a wrapper that is not started throws
  the caller-misuse error. A successful \<open>start()\<close> stores the \<open>session_id\<close> string of the
  response; when that string is not empty, the getter returns it from then on, whatever
  is done with the wrapper afterwards.
\<close>

theorem sessionId_throws_then_stable:
  "(\<not> isStarted s \<longrightarrow>
       sessionId s = Inl (Error ''Session has not been started. Call start() first.''))
   \<and> (RemoteSession_start pf s w = (Inr r, s1, w1) \<longrightarrow>
        (\<exists>sid. get_prop r ''session_id'' = JStr sid
           \<and> isStarted s1
           \<and> (sid \<noteq> [] \<longrightarrow>
                sessionId s1 = Inr (JStr sid)
                \<and> (\<forall>(wk :: 'a work) res s2 w2. run_work pf wk s1 w1 = (res, s2, w2)
                      \<longrightarrow> sessionId s2 = Inr (JStr sid)))))"
proof (intro conjI impI)
  assume "\<not> isStarted s"
  then show "sessionId s = Inl (Error ''Session has not been started. Call start() first.'')"
    by (simp add: isStarted_def sessionId_def)
next
  assume "RemoteSession_start pf s w = (Inr r, s1, w1)"
  then obtain sid where r: "get_prop r ''session_id'' = JStr sid"
    and s1: "priv_sessionId s1 = JStr sid"
    using start_ok(1) by blast
  have later: "sessionId s2 = Inr (JStr sid)"
    if "sid \<noteq> []" and "run_work pf wk s1 w1 = (res, s2, w2)"
    for wk :: "'a work" and res s2 w2
  proof -
    from that(1) s1 have "truthy (priv_sessionId s1)" by simp
    from run_work_sessionId [OF this that(2)] s1 that(1) show ?thesis
      by (simp add: sessionId_def)
  qed
  from s1 have now: "sid \<noteq> [] \<longrightarrow> sessionId s1 = Inr (JStr sid)"
    by (simp add: sessionId_def)
  from s1 have started: "isStarted s1"
    by (simp add: isStarted_def)
  show "\<exists>sid. get_prop r ''session_id'' = JStr sid
           \<and> isStarted s1
           \<and> (sid \<noteq> [] \<longrightarrow>
                sessionId s1 = Inr (JStr sid)
                \<and> (\<forall>(wk :: 'a work) res s2 w2. run_work pf wk s1 w1 = (res, s2, w2)
                      \<longrightarrow> sessionId s2 = Inr (JStr sid)))"
  proof (intro exI [of _ sid] conjI impI allI)
    show "get_prop r ''session_id'' = JStr sid" by (rule r)
    show "isStarted s1" by (rule started)
    show "sessionId s1 = Inr (JStr sid)" if "sid \<noteq> []"
      using now that by simp
    show "sessionId s2 = Inr (JStr sid)"
      if "sid \<noteq> []" and "run_work pf wk s1 w1 = (res, s2, w2)"
      for wk :: "'a work" and res s2 w2
      using that by (rule later)
  qed
qed

lemma parse_empty_id: "parse SessionResponseSchema (session_response [] ''active'') = Inr (session_response [] ''active'')"
  by code_simp

text \<open>
  C4, as stated, fails when the server's \<open>session_id\<close> is the empty string: \<open>start()\<close>
  succeeds and reading the identifier still throws.
\<close>

theorem empty_identifier_still_throws:
  "fst (RemoteSession_start empty_id_platform (new_RemoteSession test_client (JObj []))
          empty_world)
     = Inr (session_response [] ''active'')
   \<and> sessionId (fst (snd (RemoteSession_start empty_id_platform
                              (new_RemoteSession test_client (JObj [])) empty_world)))
     = Inl (Error ''Session has not been started. Call start() first.'')"
  by (simp add: empty_id_platform_def session_eval request_eval fixture_defs parse_start_empty
        parse_empty_id sessionId_def)
     (simp add: session_response_def get_key_def)

theorem sessionId_throws_then_stable_witness:
  "(let (r0, s0, w0) = RemoteSession_start start_stop_platform
                         (new_RemoteSession test_client (JObj [])) empty_world;
        (r1, s1, w1) = run_work start_stop_platform (Await CallStop (\<lambda>r. Done ())) s0 w0
    in sessionId (new_RemoteSession test_client (JObj []))
         = Inl (Error ''Session has not been started. Call start() first.'')
       \<and> sessionId s0 = Inr (JStr ''sess-456'')
       \<and> sessionId s1 = Inr (JStr ''sess-456''))"
proof -
  let ?fresh = "new_RemoteSession test_client (JObj [])"
  obtain s0 w0 where
    start: "RemoteSession_start start_stop_platform ?fresh empty_world
              = (Inr MOCK_SESSION_RESPONSE, s0, w0)"
    using start_on_mock [of "[json_response 200 MOCK_SESSION_RESPONSE, json_response 200 MOCK_STOPPED_RESPONSE]"]
    unfolding start_stop_platform_def by auto
  obtain r1 s1 w1 where
    run: "run_work start_stop_platform (Await CallStop (\<lambda>r. Done ())) s0 w0 = (r1, s1, w1)"
    by (metis prod_cases3)
  have fresh: "\<not> isStarted ?fresh"
    by (simp add: isStarted_def new_RemoteSession_def)
  from sessionId_throws_then_stable [of ?fresh start_stop_platform empty_world
         MOCK_SESSION_RESPONSE s0 w0] fresh start
  have before: "sessionId ?fresh = Inl (Error ''Session has not been started. Call start() first.'')"
    and after: "\<exists>sid. get_prop MOCK_SESSION_RESPONSE ''session_id'' = JStr sid
           \<and> isStarted s0
           \<and> (sid \<noteq> [] \<longrightarrow>
                sessionId s0 = Inr (JStr sid)
                \<and> (\<forall>(wk :: unit work) res s2 w2. run_work start_stop_platform wk s0 w0 = (res, s2, w2)
                      \<longrightarrow> sessionId s2 = Inr (JStr sid)))"
    by blast+
  from after obtain sid where sid: "get_prop MOCK_SESSION_RESPONSE ''session_id'' = JStr sid"
    and stable: "sid \<noteq> [] \<longrightarrow>
                sessionId s0 = Inr (JStr sid)
                \<and> (\<forall>(wk :: unit work) res s2 w2. run_work start_stop_platform wk s0 w0 = (res, s2, w2)
                      \<longrightarrow> sessionId s2 = Inr (JStr sid))"
    by blast
  from sid have "sid = ''sess-456''"
    by (simp add: mock_session_id)
  with stable run have "sessionId s0 = Inr (JStr ''sess-456'')" "sessionId s1 = Inr (JStr ''sess-456'')"
    by blast+
  with before start run show ?thesis by simp
qed

subsection \<open>The guarded-use helper\<close>

lemma rawRequest_fetched_cases:
  "fetched (snd (rawRequest pf c ep w)) = fetched w
   \<or> (\<exists>b. fetched (snd (rawRequest pf c ep w)) = fetched w @ [fetch_init pf c ep b])"
proof (cases "url_valid pf (buildUrl c (path ep))")
  case False
  then show ?thesis by (simp add: rawRequest_invalid_url)
next
  case True
  then show ?thesis
    by (cases "init_body ep") (auto simp: rawRequest_unserialisable rawRequest_fetched)
qed

lemma request_stop_requests:
  assumes "method' ep \<noteq> DELETE" and "request pf c ep w = (r, w')"
  shows "stop_requests w' = stop_requests w"
proof -
  from assms(2) have "w' = snd (rawRequest pf c ep w)"
    by (rule request_world)
  with rawRequest_fetched_cases [of pf c ep w] assms(1) show ?thesis
    by (auto simp: stop_requests_def fetch_init_def)
qed

lemma forward_stop_requests:
  assumes "forward f s w = (r, s', w')"
      and "\<And>sid r w'. f sid w = (r, w') \<Longrightarrow> stop_requests w' = stop_requests w"
  shows "stop_requests w' = stop_requests w"
  using assms by (auto simp: forward_def split: sum.splits prod.splits)

lemma client_op_stop_requests:
  "SessionsClient_start pf c ps w = (r, w') \<Longrightarrow> stop_requests w' = stop_requests w"
  "SessionsClient_status pf c sid w = (r, w') \<Longrightarrow> stop_requests w' = stop_requests w"
  "SessionsClient_scrape pf c sid ps w = (r, w') \<Longrightarrow> stop_requests w' = stop_requests w"
  "SessionsClient_observe pf c sid ps w = (r, w') \<Longrightarrow> stop_requests w' = stop_requests w"
  "SessionsClient_execute pf c sid ps w = (r, w') \<Longrightarrow> stop_requests w' = stop_requests w"
  "SessionsClient_setCookies pf c sid ps w = (r, w') \<Longrightarrow> stop_requests w' = stop_requests w"
  "SessionsClient_getCookies pf c sid w = (r, w') \<Longrightarrow> stop_requests w' = stop_requests w"
  by (auto simp: SessionsClient_start_def SessionsClient_status_def SessionsClient_scrape_def
        SessionsClient_observe_def SessionsClient_execute_def SessionsClient_setCookies_def
        SessionsClient_getCookies_def withBody_def endpoint_def
      split: sum.splits
      dest!: request_stop_requests [rotated])

lemma start_stop_requests:
  "RemoteSession_start pf s w = (r, s', w') \<Longrightarrow> stop_requests w' = stop_requests w"
  by (auto simp: RemoteSession_start_def split: if_splits prod.splits sum.splits
           dest: client_op_stop_requests(1))

lemma exec_op_not_stop:
  assumes "c \<noteq> CallStop" and "exec_op pf c s w = (r, s', w')"
  shows "priv_stopped s' = priv_stopped s" and "client s' = client s"
    and "stop_requests w' = stop_requests w"
proof -
  show "priv_stopped s' = priv_stopped s" "client s' = client s"
    using assms
    by (cases c; auto simp: RemoteSession_start_def RemoteSession_status_def
          RemoteSession_scrape_def RemoteSession_observe_def RemoteSession_execute_def
          RemoteSession_setCookies_def RemoteSession_getCookies_def
          split: if_splits prod.splits sum.splits dest: forward_state)+
  show "stop_requests w' = stop_requests w"
    using assms
    by (cases c)
       (auto simp: RemoteSession_status_def RemoteSession_scrape_def RemoteSession_observe_def
          RemoteSession_execute_def RemoteSession_setCookies_def RemoteSession_getCookies_def
          dest: start_stop_requests
          elim!: forward_stop_requests client_op_stop_requests)
qed

lemma run_work_stop_free:
  "stop_free wk \<Longrightarrow> run_work pf wk s w = (res, s', w')
     \<Longrightarrow> priv_stopped s' = priv_stopped s \<and> client s' = client s
         \<and> stop_requests w' = stop_requests w"
proof (induction wk arbitrary: s w)
  case (Await c k)
  obtain r s1 w1 where step: "exec_op pf c s w = (r, s1, w1)"
    by (metis prod_cases3)
  with Await.prems have rest: "run_work pf (k r) s1 w1 = (res, s', w')" by simp
  from Await.prems(1) have c: "c \<noteq> CallStop" and k: "stop_free (k r)" by simp_all
  from Await.IH [OF rangeI k rest] exec_op_not_stop [OF c step] show ?case
    by simp
qed simp_all

lemma use_unfold:
  assumes "RemoteSession_start pf (new_RemoteSession c opts) w = (Inr r, s1, w1)"
      and "run_work pf fn s1 w1 = (res, s2, w2)"
      and "RemoteSession_stop pf s2 w2 = (sres, s3, w3)"
  shows "use pf c opts fn w = ((case sres of Inl e \<Rightarrow> Inl e | Inr x \<Rightarrow> res), w3)"
  using assms by (simp add: use_def split: sum.splits)

lemma stop_sends_request:
  assumes "\<not> priv_stopped s" and "truthy (priv_sessionId s)"
      and "url_valid pf (buildUrl (client s) (String_js (priv_sessionId s) @ ''/stop''))"
      and "RemoteSession_stop pf s w = (r, s', w')"
  shows "fetched w' = fetched w @ [stop_request pf s]"
proof -
  let ?ep = "endpoint (String_js (priv_sessionId s) @ ''/stop'') DELETE SessionResponseSchema"
  from assms(1,2,4) obtain r' where "request pf (client s) ?ep w = (r', w')"
    by (auto simp: RemoteSession_stop_def SessionsClient_stop_def split: prod.splits sum.splits)
  then have "w' = snd (rawRequest pf (client s) ?ep w)"
    by (rule request_world)
  moreover from assms(3) have "url_valid pf (buildUrl (client s) (path ?ep))"
    by (simp add: endpoint_def)
  moreover have "init_body ?ep = Inr None"
    by (simp add: init_body_no_body endpoint_def)
  ultimately show ?thesis
    by (simp add: rawRequest_fetched stop_request_def)
qed

text \<open>
  C2, as amended. When the start call succeeds, \<open>use\<close> runs the work and then calls
  \<open>stop()\<close> on the wrapper once, whether the work returned or raised. If that stop
  succeeds, the caller gets the outcome of the work, so the work's own error unchanged when
  it raised; if that stop fails, the caller gets the stop's error. When the work did not
  stop the session itself, the identifier is not empty and the stop URL is valid, exactly
  one stop request is issued in all.
\<close>

theorem use_stops_once:
  assumes "RemoteSession_start pf (new_RemoteSession c opts) w = (Inr r, s1, w1)"
      and "run_work pf fn s1 w1 = (res, s2, w2)"
      and "RemoteSession_stop pf s2 w2 = (sres, s3, w3)"
  shows "use pf c opts fn w = ((case sres of Inl e \<Rightarrow> Inl e | Inr x \<Rightarrow> res), w3)
       \<and> (\<forall>x. sres = Inr x \<longrightarrow> fst (use pf c opts fn w) = res)
       \<and> (\<forall>e. sres = Inl e \<longrightarrow> fst (use pf c opts fn w) = Inl e)
       \<and> (stop_free fn \<and> truthy (priv_sessionId s1)
            \<and> url_valid pf (buildUrl c (String_js (priv_sessionId s1) @ ''/stop''))
          \<longrightarrow> stop_requests w3 = stop_requests w @ [stop_request pf s1])"
proof -
  note u = use_unfold [OF assms]
  have "stop_requests w3 = stop_requests w @ [stop_request pf s1]"
    if free: "stop_free fn" and id: "truthy (priv_sessionId s1)"
      and url: "url_valid pf (buildUrl c (String_js (priv_sessionId s1) @ ''/stop''))"
  proof -
    from start_ok(3,4) [OF assms(1)] have s1: "\<not> priv_stopped s1" "client s1 = c"
      by (simp_all add: new_RemoteSession_def)
    from run_work_stop_free [OF free assms(2)] s1
    have s2: "\<not> priv_stopped s2" "client s2 = c" and w2: "stop_requests w2 = stop_requests w1"
      by simp_all
    from run_work_sessionId [OF id assms(2)] have id2: "priv_sessionId s2 = priv_sessionId s1" .
    from start_stop_requests [OF assms(1)] have w1: "stop_requests w1 = stop_requests w" .
    from s2 s1 id2 have same: "stop_request pf s2 = stop_request pf s1"
      by (simp add: stop_request_def)
    from id id2 url s2 have "fetched w3 = fetched w2 @ [stop_request pf s2]"
      by (intro stop_sends_request [OF s2(1) _ _ assms(3)]) simp_all
    then have "stop_requests w3 = stop_requests w2 @ [stop_request pf s2]"
      by (simp add: stop_requests_def stop_request_def fetch_init_def endpoint_def)
    with w2 w1 same show ?thesis by simp
  qed
  with u show ?thesis by simp
qed

theorem use_stops_once_witness:
  "fst (use start_stop_platform test_client (JObj []) (Throw (Error ''boom'') :: unit work) empty_world)
     = Inl (Error ''boom'')
   \<and> length (stop_requests (snd (use start_stop_platform test_client (JObj [])
                (Throw (Error ''boom'') :: unit work) empty_world))) = 1"
proof -
  let ?fn = "Throw (Error ''boom'') :: unit work"
  obtain s0 w0 where
    start: "RemoteSession_start start_stop_platform (new_RemoteSession test_client (JObj []))
              empty_world = (Inr MOCK_SESSION_RESPONSE, s0, w0)"
    and s0: "\<not> priv_stopped s0" "priv_sessionId s0 = JStr ''sess-456''" "client s0 = test_client"
    and w0: "map req_method (fetched w0) = [POST]"
    using start_on_mock [of "[json_response 200 MOCK_SESSION_RESPONSE, json_response 200 MOCK_STOPPED_RESPONSE]"]
    unfolding start_stop_platform_def by auto
  have run: "run_work start_stop_platform ?fn s0 w0 = (Inl (Error ''boom''), s0, w0)"
    by simp
  from w0 have len: "length (fetched w0) = 1"
    by (metis length_map length_Cons list.size(3) One_nat_def)
  obtain s1 w1 where
    stop: "RemoteSession_stop start_stop_platform s0 w0 = (Inr MOCK_STOPPED_RESPONSE, s1, w1)"
    using stop_on_mock [OF s0(3) s0(2) s0(1) len, of "[json_response 200 MOCK_SESSION_RESPONSE, json_response 200 MOCK_STOPPED_RESPONSE]"]
    unfolding start_stop_platform_def by auto
  have pre: "stop_free ?fn \<and> truthy (priv_sessionId s0)
             \<and> url_valid start_stop_platform
                  (buildUrl test_client (String_js (priv_sessionId s0) @ ''/stop''))"
    using s0 by (simp add: start_stop_platform_def mock_platform_def)
  have none: "stop_requests empty_world = []"
    by (simp add: stop_requests_def empty_world_def)
  from use_stops_once [OF start run stop] pre none
  have "use start_stop_platform test_client (JObj []) ?fn empty_world = (Inl (Error ''boom''), w1)"
    and "stop_requests w1 = [stop_request start_stop_platform s0]"
    by simp_all
  then show ?thesis by simp
qed

text \<open>
  C2, as stated, fails when the stop request itself fails: the work throws \<open>boom\<close>, the
  server answers the stop with status 500, and the caller observes the API error of the
  stop, not \<open>boom\<close>.
\<close>

theorem stop_error_replaces_work_error:
  "fst (use stop_fails_platform test_client (JObj []) (Throw (Error ''boom'') :: unit work) empty_world)
     = Inl (APIError ''Internal error (sess-456/stop)'' 500
              (JObj [(''detail'', JStr ''Internal error'')]) ''sess-456/stop'')"
  by (simp add: use_def stop_fails_platform_def session_eval request_eval fixture_defs
        parse_start_empty parse_mock_session mock_session_id
        NotteAPIError_def api_message_def has_key_def get_key_def)

end
